theory Spec2Isabelle
  imports Complex_Main "HOL-Library.AList" "HOL-Library.Sublist"
begin

section \<open>JavaScript values\<close>

text \<open>
  A JavaScript string is a sequence of UTF-16 code units; a code unit is modelled by its
  numeric value. \<open>js\<close> embeds an ASCII literal. \<open>null\<close> and \<open>undefined\<close> are both
  \<open>None\<close>. The modelled code raises two exceptions: the \<open>URIError\<close> of
  \<open>decodeURIComponent\<close>, and the \<open>TypeError\<close> of reading a property of \<open>undefined\<close>.
  A call that may raise gives \<open>Inr\<close> of what it returns or \<open>Inl\<close> of the exception; a
  call on the manager leaves a state behind in both cases, and gives the pair of the two.
\<close>

type_synonym jsstring = "nat list"

definition js :: "string \<Rightarrow> jsstring" where
  "js s = map of_char s"

datatype js_error = URIError | TypeError

text \<open>\<open>xs[i]\<close> for an integer \<open>i\<close>: \<open>undefined\<close> outside the array.\<close>

definition at_index :: "'a list \<Rightarrow> int \<Rightarrow> 'a option" where
  "at_index xs i = (if 0 \<le> i \<and> i < int (length xs) then Some (xs ! nat i) else None)"

text \<open>\<open>x || null\<close> for a string or null \<open>x\<close>: the empty string is falsy.\<close>

definition or_null :: "jsstring option \<Rightarrow> jsstring option" where
  "or_null x = (case x of None \<Rightarrow> None | Some v \<Rightarrow> if v = [] then None else Some v)"

text \<open>\<open>Array.prototype.findIndex\<close>: the first index whose element satisfies the predicate, \<open>-1\<close> if none.\<close>

fun findIndex_from :: "('a \<Rightarrow> bool) \<Rightarrow> 'a list \<Rightarrow> int \<Rightarrow> int" where
  "findIndex_from P [] k = - 1"
| "findIndex_from P (x # xs) k = (if P x then k else findIndex_from P xs (k + 1))"

definition findIndex :: "('a \<Rightarrow> bool) \<Rightarrow> 'a list \<Rightarrow> int" where
  "findIndex P xs = findIndex_from P xs 0"

text \<open>The same loop with a predicate that may throw: the exception leaves the loop.\<close>

fun findIndexE_from :: "('a \<Rightarrow> js_error + bool) \<Rightarrow> 'a list \<Rightarrow> int \<Rightarrow> js_error + int" where
  "findIndexE_from P [] k = Inr (- 1)"
| "findIndexE_from P (x # xs) k =
     (case P x of
        Inl e \<Rightarrow> Inl e
      | Inr b \<Rightarrow> if b then Inr k else findIndexE_from P xs (k + 1))"

definition findIndexE :: "('a \<Rightarrow> js_error + bool) \<Rightarrow> 'a list \<Rightarrow> js_error + int" where
  "findIndexE P xs = findIndexE_from P xs 0"

text \<open>\<open>String.prototype.includes\<close>: does the needle occur at some position of the string?\<close>

fun includes_str :: "jsstring \<Rightarrow> jsstring \<Rightarrow> bool" where
  "includes_str [] needle = (needle = [])"
| "includes_str (c # cs) needle = (prefix needle (c # cs) \<or> includes_str cs needle)"

text \<open>\<open>Array.prototype.indexOf\<close> and \<open>splice(idx, 1)\<close>.\<close>

fun indexOf_from :: "'a list \<Rightarrow> 'a \<Rightarrow> int \<Rightarrow> int" where
  "indexOf_from [] x k = - 1"
| "indexOf_from (y # ys) x k = (if y = x then k else indexOf_from ys x (k + 1))"

definition indexOf :: "'a list \<Rightarrow> 'a \<Rightarrow> int" where
  "indexOf xs x = indexOf_from xs x 0"

definition splice1 :: "int \<Rightarrow> 'a list \<Rightarrow> 'a list" where
  "splice1 idx xs = take (nat idx) xs @ drop (nat idx + 1) xs"

subsection \<open>decodeURIComponent\<close>

text \<open>
  The built-in follows the \<open>Decode\<close> operation of ECMAScript with an empty set of preserved
  escapes: every \<open>%XX\<close> is an octet, the octets are read as UTF-8, and a \<open>%\<close> that does not
  start two hexadecimal digits, or octets that are not the UTF-8 encoding of a code point,
  raise \<open>URIError\<close>.
\<close>

definition hexDigit :: "nat \<Rightarrow> nat option" where
  "hexDigit c =
     (if 48 \<le> c \<and> c \<le> 57 then Some (c - 48)
      else if 65 \<le> c \<and> c \<le> 70 then Some (c - 55)
      else if 97 \<le> c \<and> c \<le> 102 then Some (c - 87)
      else None)"

fun ParseHexOctet :: "jsstring \<Rightarrow> nat option" where
  "ParseHexOctet (a # b # rest) =
     (case hexDigit a of
        None \<Rightarrow> None
      | Some x \<Rightarrow> (case hexDigit b of None \<Rightarrow> None | Some y \<Rightarrow> Some (16 * x + y)))"
| "ParseHexOctet _ = None"

text \<open>The number of leading 1 bits of an octet; 5 stands for every count above 4.\<close>

definition leadingOnes :: "nat \<Rightarrow> nat" where
  "leadingOnes B =
     (if B < 128 then 0 else if B < 192 then 1 else if B < 224 then 2
      else if B < 240 then 3 else if B < 248 then 4 else 5)"

text \<open>Reads \<open>j\<close> further escapes \<open>%XX\<close>; returns their octets and the rest of the string.\<close>

fun continuation :: "nat \<Rightarrow> jsstring \<Rightarrow> (nat list \<times> jsstring) option" where
  "continuation 0 s = Some ([], s)"
| "continuation (Suc j) [] = None"
| "continuation (Suc j) (p # rest) =
     (if p \<noteq> 37 then None
      else (case ParseHexOctet rest of
              None \<Rightarrow> None
            | Some b \<Rightarrow>
                (case continuation j (drop 2 rest) of
                   None \<Rightarrow> None
                 | Some (bs, s') \<Rightarrow> Some (b # bs, s'))))"

text \<open>
  The code point encoded by a lead octet with \<open>n\<close> leading ones and its \<open>n - 1\<close> continuation
  octets, if they are well-formed UTF-8: continuation octets in \<open>80..BF\<close>, no overlong form,
  no surrogate, nothing above \<open>10FFFF\<close>.
\<close>

definition utf8CodePoint :: "nat \<Rightarrow> nat list \<Rightarrow> nat option" where
  "utf8CodePoint B cs =
     (let n = length cs + 1;
          lead = (if n = 2 then B - 192 else if n = 3 then B - 224 else B - 240);
          least = (if n = 2 then 128 else if n = 3 then 2048 else 65536);
          V = foldl (\<lambda>v c. v * 64 + (c - 128)) lead cs
      in if list_all (\<lambda>c. 128 \<le> c \<and> c < 192) cs \<and> least \<le> V \<and> V \<le> 1114111
            \<and> \<not> (55296 \<le> V \<and> V \<le> 57343)
         then Some V else None)"

definition UTF16EncodeCodePoint :: "nat \<Rightarrow> jsstring" where
  "UTF16EncodeCodePoint V =
     (if V \<le> 65535 then [V]
      else [(V - 65536) div 1024 + 55296, (V - 65536) mod 1024 + 56320])"

function decodeURIComponent :: "jsstring \<Rightarrow> js_error + jsstring" where
  "decodeURIComponent [] = Inr []"
| "decodeURIComponent (C # rest) =
     (if C \<noteq> 37 then
        (case decodeURIComponent rest of Inl e \<Rightarrow> Inl e | Inr R \<Rightarrow> Inr (C # R))
      else
        (case ParseHexOctet rest of
           None \<Rightarrow> Inl URIError
         | Some B \<Rightarrow>
             if leadingOnes B = 0 then
               (case decodeURIComponent (drop 2 rest) of
                  Inl e \<Rightarrow> Inl e
                | Inr R \<Rightarrow> Inr (B # R))
             else if leadingOnes B = 1 \<or> leadingOnes B > 4 then Inl URIError
             else
               (case continuation (leadingOnes B - 1) (drop 2 rest) of
                  None \<Rightarrow> Inl URIError
                | Some (octets, rest') \<Rightarrow>
                    (case utf8CodePoint B octets of
                       None \<Rightarrow> Inl URIError
                     | Some V \<Rightarrow>
                         (case decodeURIComponent rest' of
                            Inl e \<Rightarrow> Inl e
                          | Inr R \<Rightarrow> Inr (UTF16EncodeCodePoint V @ R))))))"
  by pat_completeness auto
termination
proof (relation "measure length")
  fix C rest B x2 x y
  assume c: "continuation (leadingOnes B - 1) (drop 2 rest) = Some x2" and x2: "(x, y) = x2"
  have shorter: "continuation j s = Some (bs, s') \<Longrightarrow> length s' \<le> length s" for j s bs s'
  proof (induction j s arbitrary: bs s' rule: continuation.induct)
    case (3 j p rest)
    then show ?case
      by (fastforce split: if_splits option.splits prod.splits)
  qed simp_all
  from c x2 have "length y \<le> length (drop 2 rest)"
    using shorter [of "leadingOnes B - 1" "drop 2 rest" x y] by simp
  then show "(y, C # rest) \<in> measure length" by simp
qed simp_all


section \<open>Data model\<close>

text \<open>
  The fields keep the names of the source. Where two objects of the source have a field of
  the same name, the record of the smaller object carries a prefix: \<open>ap_\<close> for the widget
  (\<open>AudioPlayer\<close>), \<open>opt_\<close> for the options passed to \<open>register\<close>, \<open>el_\<close> for the audio
  element, \<open>pr_\<close> for the pending reconnect record, \<open>st_\<close> for a state snapshot, \<open>ti_\<close> for
  a time snapshot and \<open>pi_\<close> for an entry of the playlist-change notification.
\<close>

record track =
  title :: jsstring
  src :: jsstring

type_synonym waveform = "real list"

text \<open>
  A callback is identified by a number: \<open>indexOf\<close> compares callbacks by identity. A disposer
  returned by \<open>addStateListener\<close> or \<open>addTimeListener\<close> is the closure over its callback, so
  the widget's \<open>_unsubscribeState\<close> and \<open>_unsubscribeTime\<close> hold the callback they dispose.
  The registry refers to the widget through \<open>options.player\<close>; the record stored there is
  the widget as it is when \<open>clearPlayers\<close> calls its \<open>destroy\<close>.
\<close>

type_synonym callback = nat

record AudioPlayer =
  ap_playlist :: "track list"
  ap_name :: jsstring
  masterPlaylist :: "jsstring option"
  unsubscribeState :: "callback option"
  unsubscribeTime :: "callback option"

record player_options =
  opt_player :: "AudioPlayer option"
  opt_artist :: "jsstring option"
  opt_year :: "jsstring option"

record player =
  name :: jsstring
  playlist :: "track list"
  options :: player_options
  artist :: "jsstring option"
  year :: "jsstring option"
  waveforms :: "int \<rightharpoonup> waveform"

text \<open>
  The audio element is the platform's. The model holds the attributes the manager reads
  (\<open>duration\<close> is \<open>None\<close> for NaN) and logs the calls the manager makes on it; the events it
  fires are inputs (\<open>handle_event\<close> below). Reading \<open>audio.src\<close> does not give back the
  string that was assigned but the URL the platform resolves it to against the address of the
  page; \<open>resolveURL\<close> is that resolution, a parameter of the model.
\<close>

record audio_element =
  el_src :: jsstring
  currentTime :: real
  duration :: "real option"
  resolveURL :: "jsstring \<Rightarrow> jsstring"

datatype audio_call = SetSrc jsstring | Play | Pause

record pending_reconnect =
  playerName :: "jsstring option"
  pr_src :: jsstring
  pr_time :: real
  playing :: bool

record state_snapshot =
  st_isPlaying :: bool
  st_currentTrack :: "track option"
  st_currentIndex :: int
  st_playlistName :: "jsstring option"
  st_playlistLength :: nat
  st_currentTime :: real
  st_duration :: real
  st_artist :: "jsstring option"
  st_year :: "jsstring option"

record time_snapshot =
  ti_currentTime :: real
  ti_duration :: real

record playlist_info =
  pi_name :: jsstring
  trackCount :: nat
  isActive :: bool

text \<open>
  The manager. \<open>players\<close> is the registry object, kept as the association list of its own
  properties in insertion order (the engine's ordering of integer-like keys is left out;
  nothing below depends on the order). \<open>listenerWidget\<close> says what a callback is: the state
  listener that the widget given there installed in its \<open>bindEvents\<close>, or, where it gives
  nothing, a callback from outside this repository, taken to return without raising and
  without calling the manager. The last five fields are what the manager sends out: the
  calls on the audio element, every state snapshot given to \<open>onStateChange\<close> and then to the
  state listeners, every time snapshot given to \<open>onTimeUpdate\<close>, every time snapshot given
  to the time listeners, and every list given to \<open>onPlaylistChange\<close>.
\<close>

record AudioManager =
  players :: "(jsstring \<times> player) list"
  activePlayerName :: "jsstring option"
  audio :: audio_element
  currentPlaylist :: "track list"
  currentIndex :: int
  isPlaying :: bool
  stateChangeListeners :: "callback list"
  timeUpdateListeners :: "callback list"
  listenerWidget :: "callback \<rightharpoonup> AudioPlayer"
  pendingReconnect :: "pending_reconnect option"
  audioCalls :: "audio_call list"
  stateLog :: "state_snapshot list"
  onTimeUpdateLog :: "time_snapshot list"
  timeLog :: "time_snapshot list"
  playlistLog :: "playlist_info list list"

text \<open>
  The manager as constructed on a page of the site: for a path that starts with \<open>/\<close> and has
  no character to encode, as all paths of the examples below, the platform resolves it by
  putting the origin in front. Every theorem that is not about an example holds for every
  state, so for every resolution.
\<close>

definition site_url :: "jsstring \<Rightarrow> jsstring" where
  "site_url path = js ''https://limited-interest.com'' @ path"

definition new_AudioManager :: AudioManager where
  "new_AudioManager =
     \<lparr> players = [], activePlayerName = None,
       audio = \<lparr> el_src = [], currentTime = 0, duration = None, resolveURL = site_url \<rparr>,
       currentPlaylist = [], currentIndex = 0, isPlaying = False,
       stateChangeListeners = [], timeUpdateListeners = [], listenerWidget = Map.empty,
       pendingReconnect = None,
       audioCalls = [], stateLog = [], onTimeUpdateLog = [], timeLog = [], playlistLog = [] \<rparr>"

section \<open>Reading the registry\<close>

text \<open>
  The registry is a plain object, so \<open>this.players[name]\<close> finds, after the registered
  playlists, the members that every object inherits from \<open>Object.prototype\<close>: for one of
  these names with no playlist registered under it the value is a function (the prototype
  itself for \<open>__proto__\<close>), which is truthy and has no \<open>playlist\<close>. (Assigning
  \<open>players['__proto__']\<close> would replace the prototype instead of adding a property; no
  playlist is registered under that name.)
\<close>

definition Object_prototype_names :: "jsstring list" where
  "Object_prototype_names =
     [js ''constructor'', js ''__defineGetter__'', js ''__defineSetter__'', js ''hasOwnProperty'',
      js ''__lookupGetter__'', js ''__lookupSetter__'', js ''isPrototypeOf'',
      js ''propertyIsEnumerable'', js ''toString'', js ''valueOf'', js ''__proto__'',
      js ''toLocaleString'']"

datatype lookup = Own player | Inherited | Missing

definition players_get :: "AudioManager \<Rightarrow> jsstring \<Rightarrow> lookup" where
  "players_get s nm =
     (case map_of (players s) nm of
        Some p \<Rightarrow> Own p
      | None \<Rightarrow> if nm \<in> set Object_prototype_names then Inherited else Missing)"

section \<open>The widget's index translation\<close>

text \<open>
  \<open>findMasterIndex\<close> and \<open>findLocalIndex\<close> of \<open>AudioPlayer\<close>. The second argument is
  \<open>window.audioManager\<close>, which may be absent. With an inherited member in the place of
  the master player, \<open>masterPlayer.playlist\<close> is \<open>undefined\<close> and its use raises
  \<open>TypeError\<close>.
\<close>

definition sameDecoded :: "jsstring \<Rightarrow> track \<Rightarrow> js_error + bool" where
  "sameDecoded target t =
     (case decodeURIComponent (src t) of Inl e \<Rightarrow> Inl e | Inr d \<Rightarrow> Inr (d = target))"

definition findMasterIndex :: "AudioPlayer \<Rightarrow> AudioManager option \<Rightarrow> int \<Rightarrow> js_error + int" where
  "findMasterIndex w am localIndex =
     (case or_null (masterPlaylist w) of
        None \<Rightarrow> Inr (- 1)
      | Some m \<Rightarrow>
          (case am of
             None \<Rightarrow> Inr (- 1)
           | Some mgr \<Rightarrow>
               (case at_index (ap_playlist w) localIndex of
                  None \<Rightarrow> Inr (- 1)
                | Some localTrack \<Rightarrow>
                    (case players_get mgr m of
                       Missing \<Rightarrow> Inr (- 1)
                     | Inherited \<Rightarrow>
                         (case decodeURIComponent (src localTrack) of
                            Inl e \<Rightarrow> Inl e
                          | Inr localSrc \<Rightarrow> Inl TypeError)
                     | Own masterPlayer \<Rightarrow>
                         (case decodeURIComponent (src localTrack) of
                            Inl e \<Rightarrow> Inl e
                          | Inr localSrc \<Rightarrow>
                              findIndexE (sameDecoded localSrc) (playlist masterPlayer))))))"

definition findLocalIndex :: "AudioPlayer \<Rightarrow> AudioManager option \<Rightarrow> int \<Rightarrow> js_error + int" where
  "findLocalIndex w am masterIndex =
     (case or_null (masterPlaylist w) of
        None \<Rightarrow> Inr (- 1)
      | Some m \<Rightarrow>
          (case am of
             None \<Rightarrow> Inr (- 1)
           | Some mgr \<Rightarrow>
               (case players_get mgr m of
                  Missing \<Rightarrow> Inr (- 1)
                | Inherited \<Rightarrow> Inl TypeError
                | Own masterPlayer \<Rightarrow>
                    (case at_index (playlist masterPlayer) masterIndex of
                       None \<Rightarrow> Inr (- 1)
                     | Some masterTrack \<Rightarrow>
                         (case decodeURIComponent (src masterTrack) of
                            Inl e \<Rightarrow> Inl e
                          | Inr masterSrc \<Rightarrow>
                              findIndexE (sameDecoded masterSrc) (ap_playlist w))))))"

text \<open>
  \<open>handleManagerState\<close>, the state listener of a widget, as far as the manager sees it:
  whether it raises. It compares the snapshot's playlist with the widget's target (its
  master playlist, or its own name), and only a widget with a master playlist whose target
  is the playlist of the snapshot calls \<open>findLocalIndex\<close>; what it does then to its own
  display is left out.
\<close>

definition handleManagerState :: "AudioPlayer \<Rightarrow> AudioManager \<Rightarrow> state_snapshot \<Rightarrow> js_error option" where
  "handleManagerState w s state =
     (let targetPlaylist = (case or_null (masterPlaylist w) of None \<Rightarrow> ap_name w | Some m \<Rightarrow> m)
      in if st_playlistName state = Some targetPlaylist
         then (case or_null (masterPlaylist w) of
                 None \<Rightarrow> None
               | Some m \<Rightarrow>
                   (case findLocalIndex w (Some s) (st_currentIndex state) of
                      Inl e \<Rightarrow> Some e
                    | Inr localIndex \<Rightarrow> None))
         else None)"

section \<open>The audio manager\<close>

definition getPlaylists :: "AudioManager \<Rightarrow> playlist_info list" where
  "getPlaylists s =
     map (\<lambda>(n, p). \<lparr> pi_name = n, trackCount = length (playlist p),
                     isActive = (Some n = activePlayerName s) \<rparr>) (players s)"

definition onPlaylistChange :: "AudioManager \<Rightarrow> AudioManager" where
  "onPlaylistChange s = s\<lparr> playlistLog := playlistLog s @ [getPlaylists s] \<rparr>"

definition getCurrentTrack :: "AudioManager \<Rightarrow> track option" where
  "getCurrentTrack s =
     (if length (currentPlaylist s) = 0 then None
      else at_index (currentPlaylist s) (currentIndex s))"

text \<open>
  In \<open>getState\<close> an inherited member in the place of the active player has no \<open>artist\<close> and
  no \<open>year\<close>, which gives \<open>null\<close> as a missing player does.
\<close>

definition getState :: "AudioManager \<Rightarrow> state_snapshot" where
  "getState s =
     (let p = (case activePlayerName s of
                 None \<Rightarrow> None
               | Some n \<Rightarrow> if n = [] then None else map_of (players s) n)
      in \<lparr> st_isPlaying = isPlaying s,
           st_currentTrack = getCurrentTrack s,
           st_currentIndex = currentIndex s,
           st_playlistName = activePlayerName s,
           st_playlistLength = length (currentPlaylist s),
           st_currentTime = currentTime (audio s),
           st_duration = (case duration (audio s) of None \<Rightarrow> 0 | Some d \<Rightarrow> d),
           st_artist = (case p of None \<Rightarrow> None | Some q \<Rightarrow> or_null (artist q)),
           st_year = (case p of None \<Rightarrow> None | Some q \<Rightarrow> or_null (year q)) \<rparr>)"

text \<open>
  \<open>_notifyStateListeners\<close> calls the listeners in order; the first one that raises ends the
  loop, and the exception leaves \<open>notifyStateChange\<close> and its caller. (What the loop does
  when a callback changes the listener list is modelled apart, in \<open>forEach_listeners\<close>.)
\<close>

definition invoke_state_listener :: "AudioManager \<Rightarrow> state_snapshot \<Rightarrow> callback \<Rightarrow> js_error option" where
  "invoke_state_listener s state cb =
     (case listenerWidget s cb of None \<Rightarrow> None | Some w \<Rightarrow> handleManagerState w s state)"

fun first_raise :: "(callback \<Rightarrow> js_error option) \<Rightarrow> callback list \<Rightarrow> js_error option" where
  "first_raise f [] = None"
| "first_raise f (cb # cbs) = (case f cb of Some e \<Rightarrow> Some e | None \<Rightarrow> first_raise f cbs)"

definition notifyStateChange :: "AudioManager \<Rightarrow> (js_error + unit) \<times> AudioManager" where
  "notifyStateChange s =
     (let state = getState s;
          s1 = s\<lparr> stateLog := stateLog s @ [state] \<rparr>
      in (case first_raise (invoke_state_listener s state) (stateChangeListeners s) of
            None \<Rightarrow> (Inr (), s1)
          | Some e \<Rightarrow> (Inl e, s1)))"

text \<open>Sequencing: what follows a call that raised is not run.\<close>

definition and_then ::
  "(js_error + unit) \<times> AudioManager \<Rightarrow> (AudioManager \<Rightarrow> (js_error + 'a) \<times> AudioManager)
     \<Rightarrow> (js_error + 'a) \<times> AudioManager" where
  "and_then r f = (case fst r of Inl e \<Rightarrow> (Inl e, snd r) | Inr u \<Rightarrow> f (snd r))"

text \<open>
  In \<open>register\<close> an inherited member in the place of the player has no \<open>waveforms\<close>, which
  gives the empty cache as a missing player does.
\<close>

definition register :: "jsstring \<Rightarrow> track list \<Rightarrow> player_options \<Rightarrow> AudioManager \<Rightarrow> AudioManager" where
  "register nm pl opts s =
     (let existingWaveforms =
            (case map_of (players s) nm of None \<Rightarrow> Map.empty | Some p \<Rightarrow> waveforms p)
      in onPlaylistChange
           (s\<lparr> players :=
                 AList.update nm
                   \<lparr> name = nm, playlist = pl, options = opts,
                     artist = or_null (opt_artist opts), year = or_null (opt_year opts),
                     waveforms = existingWaveforms \<rparr>
                   (players s) \<rparr>))"

definition pause :: "AudioManager \<Rightarrow> AudioManager" where
  "pause s = s\<lparr> audioCalls := audioCalls s @ [Pause] \<rparr>"

text \<open>
  \<open>play\<close> also pauses the videos of \<open>window.videoManager\<close> when there is one; that
  collaborator is outside the manager and left out.
\<close>

definition play :: "AudioManager \<Rightarrow> AudioManager" where
  "play s =
     (if length (currentPlaylist s) = 0 then s
      else s\<lparr> audioCalls := audioCalls s @ [Play] \<rparr>)"

definition unregister :: "jsstring \<Rightarrow> AudioManager \<Rightarrow> AudioManager" where
  "unregister nm s =
     (let s1 = (if activePlayerName s = Some nm
                then (pause s)\<lparr> activePlayerName := None, currentPlaylist := [] \<rparr>
                else s)
      in onPlaylistChange (s1\<lparr> players := AList.delete nm (players s1) \<rparr>))"

text \<open>The disposer of a listener: \<open>indexOf\<close>, then \<open>splice(idx, 1)\<close> if the callback was found.\<close>

definition dispose :: "callback \<Rightarrow> callback list \<Rightarrow> callback list" where
  "dispose cb ls = (let idx = indexOf ls cb in if idx > - 1 then splice1 idx ls else ls)"

definition addStateListener :: "callback \<Rightarrow> AudioManager \<Rightarrow> AudioManager" where
  "addStateListener cb s = s\<lparr> stateChangeListeners := stateChangeListeners s @ [cb] \<rparr>"

definition disposeStateListener :: "callback \<Rightarrow> AudioManager \<Rightarrow> AudioManager" where
  "disposeStateListener cb s = s\<lparr> stateChangeListeners := dispose cb (stateChangeListeners s) \<rparr>"

definition addTimeListener :: "callback \<Rightarrow> AudioManager \<Rightarrow> AudioManager" where
  "addTimeListener cb s = s\<lparr> timeUpdateListeners := timeUpdateListeners s @ [cb] \<rparr>"

definition disposeTimeListener :: "callback \<Rightarrow> AudioManager \<Rightarrow> AudioManager" where
  "disposeTimeListener cb s = s\<lparr> timeUpdateListeners := dispose cb (timeUpdateListeners s) \<rparr>"

text \<open>\<open>AudioPlayer.destroy\<close>: the widget calls the disposers it holds.\<close>

definition destroy :: "AudioPlayer \<Rightarrow> AudioManager \<Rightarrow> AudioManager" where
  "destroy w s =
     (let s1 = (case unsubscribeState w of None \<Rightarrow> s | Some cb \<Rightarrow> disposeStateListener cb s)
      in (case unsubscribeTime w of None \<Rightarrow> s1 | Some cb \<Rightarrow> disposeTimeListener cb s1))"

definition destroy_player :: "AudioManager \<Rightarrow> jsstring \<times> player \<Rightarrow> AudioManager" where
  "destroy_player s e =
     (case opt_player (options (snd e)) of None \<Rightarrow> s | Some w \<Rightarrow> destroy w s)"

definition clearPlayers :: "AudioManager \<Rightarrow> AudioManager" where
  "clearPlayers s =
     (let wasActive = activePlayerName s;
          wasPlaying = isPlaying s;
          currentSrc = el_src (audio s);
          currentTime' = currentTime (audio s);
          s1 = foldl destroy_player s (players s)
      in onPlaylistChange
           (s1\<lparr> players := [],
                pendingReconnect :=
                  Some \<lparr> playerName = wasActive, pr_src = currentSrc,
                         pr_time = currentTime', playing = wasPlaying \<rparr> \<rparr>))"

text \<open>
  In \<open>tryReconnect\<close> an inherited member passes the test \<open>if (!player)\<close>, and
  \<open>player.playlist.findIndex\<close> raises \<open>TypeError\<close>, before anything is written.
\<close>

definition tryReconnect :: "jsstring \<Rightarrow> AudioManager \<Rightarrow> (js_error + bool) \<times> AudioManager" where
  "tryReconnect nm s =
     (case pendingReconnect s of
        None \<Rightarrow> (Inr False, s)
      | Some r \<Rightarrow>
          if playerName r \<noteq> Some nm then (Inr False, s)
          else
            (case players_get s nm of
               Missing \<Rightarrow> (Inr False, s)
             | Inherited \<Rightarrow> (Inl TypeError, s)
             | Own p \<Rightarrow>
                 (let matchIndex = findIndex (\<lambda>t. includes_str (pr_src r) (src t)) (playlist p)
                  in if matchIndex \<ge> 0
                     then and_then
                            (notifyStateChange
                               (s\<lparr> activePlayerName := Some nm,
                                   currentPlaylist := playlist p,
                                   currentIndex := matchIndex,
                                   pendingReconnect := None \<rparr>))
                            (\<lambda>s'. (Inr True, s'))
                     else (Inr False, s\<lparr> pendingReconnect := None \<rparr>))))"

text \<open>
  \<open>loadTrack\<close> assigns the track's \<open>src\<close> to \<open>audio.src\<close>, which from then on reads as its
  resolution, and broadcasts.
\<close>

definition loadTrack :: "int \<Rightarrow> AudioManager \<Rightarrow> (js_error + unit) \<times> AudioManager" where
  "loadTrack index s =
     (if index < 0 \<or> index \<ge> int (length (currentPlaylist s)) then (Inr (), s)
      else
        (let tr = currentPlaylist s ! nat index
         in notifyStateChange
              (s\<lparr> currentIndex := index,
                  audio := (audio s)\<lparr> el_src := resolveURL (audio s) (src tr) \<rparr>,
                  audioCalls := audioCalls s @ [SetSrc (src tr)] \<rparr>)))"

text \<open>
  In \<open>setActivePlaylist\<close> and \<open>playPlaylist\<close> an inherited member in the place of the player
  makes the name active with an \<open>undefined\<close> track list, whose \<open>length\<close> is then read, in
  \<open>loadTrack\<close> or in \<open>play\<close>: \<open>TypeError\<close>. The record has no undefined track list; the model
  keeps the list that was there, and nothing below is stated about that case.
\<close>

definition setActivePlaylist :: "jsstring \<Rightarrow> AudioManager \<Rightarrow> (js_error + unit) \<times> AudioManager" where
  "setActivePlaylist nm s =
     (case players_get s nm of
        Missing \<Rightarrow> (Inr (), s)
      | Inherited \<Rightarrow> (Inl TypeError, s\<lparr> activePlayerName := Some nm \<rparr>)
      | Own p \<Rightarrow>
          and_then (loadTrack 0 (s\<lparr> activePlayerName := Some nm, currentPlaylist := playlist p \<rparr>))
            notifyStateChange)"

definition playPlaylist :: "jsstring \<Rightarrow> int \<Rightarrow> AudioManager \<Rightarrow> (js_error + unit) \<times> AudioManager" where
  "playPlaylist nm startIndex s =
     (case players_get s nm of
        Missing \<Rightarrow> (Inr (), s)
      | Inherited \<Rightarrow> (Inl TypeError, s\<lparr> activePlayerName := Some nm \<rparr>)
      | Own p \<Rightarrow>
          and_then
            (loadTrack startIndex (s\<lparr> activePlayerName := Some nm, currentPlaylist := playlist p \<rparr>))
            (\<lambda>s'. (Inr (), play s')))"

definition togglePlay :: "AudioManager \<Rightarrow> AudioManager" where
  "togglePlay s = (if isPlaying s then pause s else play s)"

definition "next" :: "AudioManager \<Rightarrow> (js_error + unit) \<times> AudioManager" where
  "next s =
     (if currentIndex s < int (length (currentPlaylist s)) - 1
      then and_then (loadTrack (currentIndex s + 1) s) (\<lambda>s'. (Inr (), play s'))
      else and_then (loadTrack 0 s) (\<lambda>s'. (Inr (), pause s')))"


definition getWaveform :: "AudioManager \<Rightarrow> jsstring \<Rightarrow> int \<Rightarrow> waveform option" where
  "getWaveform s playerName' trackIndex =
     (case map_of (players s) playerName' of
        None \<Rightarrow> None
      | Some p \<Rightarrow> waveforms p trackIndex)"

subsection \<open>Events of the audio element\<close>

text \<open>
  \<open>bindAudioEvents\<close> installs one handler per event; the platform calls them, each in a
  task of its own, after the call that caused the event has returned, and an exception
  that leaves a handler goes to the platform: the state the handler leaves is what
  remains. \<open>PlayRejected\<close> is the rejection of the promise returned by \<open>audio.play()\<close>,
  handled in \<open>play\<close>. The field \<open>isPlaying\<close> is written by these handlers only.
\<close>

datatype audio_event =
  TimeUpdate | Ended | PlayEvent | PauseEvent | ErrorEvent | LoadedMetadata | PlayRejected

definition timeOf :: "AudioManager \<Rightarrow> time_snapshot" where
  "timeOf s =
     \<lparr> ti_currentTime = currentTime (audio s),
       ti_duration = (case duration (audio s) of None \<Rightarrow> 0 | Some d \<Rightarrow> d) \<rparr>"

fun handle_event :: "audio_event \<Rightarrow> AudioManager \<Rightarrow> AudioManager" where
  "handle_event TimeUpdate s =
     s\<lparr> onTimeUpdateLog := onTimeUpdateLog s @ [timeOf s], timeLog := timeLog s @ [timeOf s] \<rparr>"
| "handle_event Ended s = snd (next s)"
| "handle_event PlayEvent s = snd (notifyStateChange (s\<lparr> isPlaying := True \<rparr>))"
| "handle_event PauseEvent s = snd (notifyStateChange (s\<lparr> isPlaying := False \<rparr>))"
| "handle_event ErrorEvent s = snd (notifyStateChange (s\<lparr> isPlaying := False \<rparr>))"
| "handle_event LoadedMetadata s =
     snd (and_then (notifyStateChange s)
            (\<lambda>s1. (Inr (), s1\<lparr> onTimeUpdateLog := onTimeUpdateLog s1 @ [timeOf s1] \<rparr>)))"
| "handle_event PlayRejected s = snd (notifyStateChange (s\<lparr> isPlaying := False \<rparr>))"

fun handle_events :: "audio_event list \<Rightarrow> AudioManager \<Rightarrow> AudioManager" where
  "handle_events [] s = s"
| "handle_events (e # es) s = handle_events es (handle_event e s)"

subsection \<open>A broadcast whose callbacks change the listener list\<close>

text \<open>
  \<open>_notifyStateListeners\<close> and \<open>_notifyTimeListeners\<close> are \<open>forEach\<close> over the live array.
  \<open>forEach\<close> reads the length once, then for each index below it that the array still has,
  calls the callback with the element found there at that moment. What a callback does to
  the listener list is a sequence of calls of disposers and of \<open>addStateListener\<close>
  (\<open>addTimeListener\<close> for the time channel).
\<close>

datatype listener_action = Unsubscribe callback | Subscribe callback

fun run_actions :: "listener_action list \<Rightarrow> callback list \<Rightarrow> callback list" where
  "run_actions [] ls = ls"
| "run_actions (Unsubscribe c # acts) ls = run_actions acts (dispose c ls)"
| "run_actions (Subscribe c # acts) ls = run_actions acts (ls @ [c])"

function forEach_from ::
  "(callback \<Rightarrow> listener_action list) \<Rightarrow> nat \<Rightarrow> nat \<Rightarrow> callback list \<Rightarrow> callback list
     \<Rightarrow> callback list \<times> callback list" where
  "forEach_from beh len k ls called =
     (if k < len then
        (if k < length ls
         then forEach_from beh len (k + 1) (run_actions (beh (ls ! k)) ls) (called @ [ls ! k])
         else forEach_from beh len (k + 1) ls called)
      else (called, ls))"
  by pat_completeness auto
termination
  by (relation "measure (\<lambda>(beh, len, k, ls, called). len - k)") auto

declare forEach_from.simps [simp del]

text \<open>The callbacks invoked by one broadcast, in order, and the listener list it leaves.\<close>

definition forEach_listeners ::
  "(callback \<Rightarrow> listener_action list) \<Rightarrow> callback list \<Rightarrow> callback list \<times> callback list" where
  "forEach_listeners beh ls = forEach_from beh (length ls) 0 ls []"

definition notifyStateListeners ::
  "(callback \<Rightarrow> listener_action list) \<Rightarrow> AudioManager \<Rightarrow> callback list \<times> AudioManager" where
  "notifyStateListeners beh s =
     (case forEach_listeners beh (stateChangeListeners s) of
        (called, ls') \<Rightarrow> (called, s\<lparr> stateChangeListeners := ls' \<rparr>))"

section \<open>Notions used in the statements\<close>

text \<open>
  The state in which \<open>loadTrack\<close> broadcasts when its index is an index of the track list:
  the index is current, the element has the track's \<open>src\<close>.
\<close>

definition loaded :: "int \<Rightarrow> AudioManager \<Rightarrow> AudioManager" where
  "loaded k s =
     s\<lparr> currentIndex := k,
        audio := (audio s)\<lparr> el_src := resolveURL (audio s) (src (currentPlaylist s ! nat k)) \<rparr>,
        audioCalls := audioCalls s @ [SetSrc (src (currentPlaylist s ! nat k))] \<rparr>"

text \<open>Every snapshot an operation adds to the log names the active playlist.\<close>

definition logs_active :: "AudioManager \<Rightarrow> AudioManager \<Rightarrow> bool" where
  "logs_active s s' =
     (activePlayerName s' = activePlayerName s
      \<and> (\<exists>xs. stateLog s' = stateLog s @ xs
               \<and> list_all (\<lambda>x. st_playlistName x = activePlayerName s) xs))"

text \<open>
  A callback that only subscribes: the callbacks it adds, in order.
\<close>

fun subscriptions :: "listener_action list \<Rightarrow> callback list" where
  "subscriptions [] = []"
| "subscriptions (Subscribe c # acts) = c # subscriptions acts"
| "subscriptions (Unsubscribe c # acts) = subscriptions acts"

fun adds_only :: "listener_action list \<Rightarrow> bool" where
  "adds_only [] = True"
| "adds_only (Subscribe c # acts) = adds_only acts"
| "adds_only (Unsubscribe c # acts) = False"

section \<open>Example sessions\<close>

definition track1 :: track where
  "track1 = \<lparr> title = js ''One'', src = js ''/a/1.mp3'' \<rparr>"

definition track2 :: track where
  "track2 = \<lparr> title = js ''Two'', src = js ''/a/2.mp3'' \<rparr>"

definition track3 :: track where
  "track3 = \<lparr> title = js ''Three'', src = js ''/b/3.mp3'' \<rparr>"

definition track_percent :: track where
  "track_percent = \<lparr> title = js ''Full'', src = js ''/a/100%.mp3'' \<rparr>"

definition no_options :: player_options where
  "no_options = \<lparr> opt_player = None, opt_artist = None, opt_year = None \<rparr>"

text \<open>Two playlists registered, \<open>P1\<close> playing its first track.\<close>

definition two_registered :: AudioManager where
  "two_registered =
     register (js ''P2'') [track3] no_options
       (register (js ''P1'') [track1, track2] no_options new_AudioManager)"

definition playing_P1 :: AudioManager where
  "playing_P1 = handle_event PlayEvent (snd (playPlaylist (js ''P1'') 0 two_registered))"

text \<open>The same session playing the last track of \<open>P1\<close>.\<close>

definition playing_last :: AudioManager where
  "playing_last = handle_event PlayEvent (snd (playPlaylist (js ''P1'') 1 two_registered))"

text \<open>
  From there \<open>playPlaylist('P2', 5)\<close> is called with an index that \<open>P2\<close> does not have:
  \<open>P2\<close> is active with its one track, nothing is loaded, and \<open>currentIndex\<close> is still 1.
\<close>

definition stale_index :: AudioManager where
  "stale_index = snd (playPlaylist (js ''P2'') 5 playing_last)"

text \<open>After a navigation: the registry is cleared while \<open>P1\<close> plays.\<close>

definition cleared_P1 :: AudioManager where
  "cleared_P1 = clearPlayers playing_P1"

text \<open>
  A playlist named \<open>constructor\<close> plays, then the registry is cleared.
\<close>

definition cleared_constructor :: AudioManager where
  "cleared_constructor =
     clearPlayers
       (handle_event PlayEvent
          (snd (playPlaylist (js ''constructor'') 0
                  (register (js ''constructor'') [track1] no_options new_AudioManager))))"

text \<open>The same callback registered twice; two callbacks, the first of which disposes itself.\<close>

definition twice_registered :: AudioManager where
  "twice_registered = addStateListener 7 (addStateListener 7 new_AudioManager)"

definition two_listeners :: AudioManager where
  "two_listeners = addStateListener 1 (addStateListener 0 new_AudioManager)"

definition self_removing :: "callback \<Rightarrow> listener_action list" where
  "self_removing c = (if c = 0 then [Unsubscribe 0] else [])"

definition subscribing :: "callback \<Rightarrow> listener_action list" where
  "subscribing c = (if c = 0 then [Subscribe 5] else [])"

text \<open>
  A widget that aliases the master playlist \<open>Master\<close>; its state listener is callback 3 and
  its time listener callback 4. Then managers holding that master.
\<close>

definition album_widget :: AudioPlayer where
  "album_widget =
     \<lparr> ap_playlist = [track2], ap_name = js ''Album'', masterPlaylist = Some (js ''Master''),
       unsubscribeState = Some 3, unsubscribeTime = Some 4 \<rparr>"

definition master_manager :: AudioManager where
  "master_manager = register (js ''Master'') [track1, track2] no_options new_AudioManager"

definition master_percent :: AudioManager where
  "master_percent = register (js ''Master'') [track_percent, track2] no_options new_AudioManager"

text \<open>
  A page with the master playlist \<open>Master\<close>, whose second track has a \<open>src\<close> that cannot be
  decoded, and with that widget, which has subscribed its two listeners; the master plays
  its first track.
\<close>

definition alias_page :: AudioManager where
  "alias_page =
     addTimeListener 4
       (addStateListener 3
          (register (js ''Master'') [track2, track_percent] no_options
             (new_AudioManager\<lparr> listenerWidget := [3 \<mapsto> album_widget] \<rparr>)))"

definition alias_listening :: AudioManager where
  "alias_listening = handle_event PlayEvent (snd (playPlaylist (js ''Master'') 0 alias_page))"

section \<open>Facts about the array and string operations\<close>

lemma indexOf_from_ge: "indexOf_from xs x k = - 1 \<or> k \<le> indexOf_from xs x k"
  by (induction xs arbitrary: k) (auto, force)

lemma indexOf_from_remove1:
  "0 \<le> k \<Longrightarrow>
   (if indexOf_from xs x k > - 1
    then take (nat (indexOf_from xs x k - k)) xs @ drop (nat (indexOf_from xs x k - k) + 1) xs
    else xs) = remove1 x xs"
proof (induction xs arbitrary: k)
  case Nil
  then show ?case by simp
next
  case (Cons y ys)
  show ?case
  proof (cases "y = x")
    case True
    with Cons.prems show ?thesis by simp
  next
    case False
    have k1: "0 \<le> k + 1" using Cons.prems by simp
    note IH = Cons.IH [OF k1]
    show ?thesis
    proof (cases "indexOf_from ys x (k + 1) > - 1")
      case True
      with indexOf_from_ge [of ys x "k + 1"] have ge: "k + 1 \<le> indexOf_from ys x (k + 1)" by auto
      then have "nat (indexOf_from ys x (k + 1) - k) = Suc (nat (indexOf_from ys x (k + 1) - (k + 1)))"
        by linarith
      with IH True False show ?thesis by simp
    next
      case F2: False
      with IH False show ?thesis by simp
    qed
  qed
qed

lemma dispose_remove1: "dispose cb ls = remove1 cb ls"
  using indexOf_from_remove1 [of 0 ls cb]
  by (auto simp add: dispose_def indexOf_def splice1_def Let_def split: if_splits)

lemma findIndex_from_none:
  "(\<forall>x \<in> set xs. \<not> P x) \<Longrightarrow> findIndex_from P xs k = - 1"
  by (induction xs arbitrary: k) auto

lemma findIndex_from_some:
  "\<exists>x \<in> set xs. P x \<Longrightarrow> findIndex_from P xs k = k + int (length (takeWhile (\<lambda>x. \<not> P x) xs))"
proof (induction xs arbitrary: k)
  case Nil
  then show ?case by simp
next
  case (Cons y ys)
  show ?case
  proof (cases "P y")
    case True
    then show ?thesis by simp
  next
    case False
    with Cons.prems have "\<exists>x \<in> set ys. P x" by auto
    from Cons.IH [OF this, of "k + 1"] False show ?thesis by simp
  qed
qed

lemma includes_str_sublist: "includes_str hay needle \<longleftrightarrow> sublist needle hay"
  by (induction hay) (auto simp: sublist_Cons_right)


lemma findIndex_none: "(\<forall>x \<in> set xs. \<not> P x) \<Longrightarrow> findIndex P xs = - 1"
  by (simp add: findIndex_def findIndex_from_none)

lemma findIndex_some:
  "\<exists>x \<in> set xs. P x \<Longrightarrow> findIndex P xs = int (length (takeWhile (\<lambda>x. \<not> P x) xs))"
  by (simp add: findIndex_def findIndex_from_some)

lemma dispose_absent: "cb \<notin> set ls \<Longrightarrow> dispose cb ls = ls"
  by (simp add: dispose_remove1 remove1_idem)

lemma count_list_0_iff': "count_list xs x = 0 \<longleftrightarrow> x \<notin> set xs"
  by (induction xs) auto

lemma remove1_twice_single:
  "count_list ls cb \<le> 1 \<Longrightarrow> remove1 cb (remove1 cb ls) = remove1 cb ls"
proof (induction ls)
  case Nil
  then show ?case by simp
next
  case (Cons x xs)
  show ?case
  proof (cases "x = cb")
    case True
    with Cons.prems have "count_list xs cb = 0" by simp
    then have "cb \<notin> set xs" by (simp add: count_list_0_iff')
    with True show ?thesis by (simp add: remove1_idem)
  next
    case False
    with Cons show ?thesis by simp
  qed
qed

section \<open>The broadcast loop\<close>

lemma run_actions_adds_only:
  "adds_only acts \<Longrightarrow> run_actions acts ls = ls @ subscriptions acts"
  by (induction acts arbitrary: ls rule: adds_only.induct) simp_all

lemma forEach_from_adds_only:
  assumes "\<forall>c \<in> set ls0. adds_only (beh c)" and "k \<le> length ls0"
  shows "forEach_from beh (length ls0) k (ls0 @ extra) called =
           (called @ drop k ls0,
            ls0 @ extra @ concat (map (\<lambda>c. subscriptions (beh c)) (drop k ls0)))"
  using assms(2)
proof (induction n \<equiv> "length ls0 - k" arbitrary: k extra called)
  case 0
  then have "k = length ls0" by simp
  then show ?case by (subst forEach_from.simps) simp
next
  case (Suc n)
  then have k: "k < length ls0" by simp
  then have mem: "ls0 ! k \<in> set ls0" by simp
  with assms(1) have ao: "adds_only (beh (ls0 ! k))" by blast
  have n: "n = length ls0 - (k + 1)" using Suc.hyps(2) by simp
  have le: "k + 1 \<le> length ls0" using k by simp
  have step: "forEach_from beh (length ls0) k (ls0 @ extra) called =
      forEach_from beh (length ls0) (k + 1)
        (ls0 @ (extra @ subscriptions (beh (ls0 ! k)))) (called @ [ls0 ! k])"
    using k by (subst forEach_from.simps) (simp add: nth_append run_actions_adds_only [OF ao])
  have dr: "drop k ls0 = ls0 ! k # drop (k + 1) ls0"
    using k by (simp add: Cons_nth_drop_Suc)
  show ?case
    unfolding step Suc.hyps(1) [OF n le] dr by simp
qed

lemma forEach_from_bound:
  "length (fst (forEach_from beh len k ls called)) \<le> length called + (len - k)"
proof (induction beh len k ls called rule: forEach_from.induct)
  case (1 beh len k ls called)
  show ?case
  proof (cases "k < len")
    case False
    then show ?thesis by (subst forEach_from.simps) simp
  next
    case True
    show ?thesis
    proof (cases "k < length ls")
      case t: True
      from "1.IH"(1) [OF True t] True t show ?thesis
        by (subst forEach_from.simps) simp
    next
      case f: False
      from "1.IH"(2) [OF True f] True f show ?thesis
        by (subst forEach_from.simps) simp
    qed
  qed
qed

section \<open>Which fields an operation leaves alone\<close>

lemma onPlaylistChange_fields [simp]:
  "players (onPlaylistChange s) = players s"
  "activePlayerName (onPlaylistChange s) = activePlayerName s"
  "audio (onPlaylistChange s) = audio s"
  "currentPlaylist (onPlaylistChange s) = currentPlaylist s"
  "currentIndex (onPlaylistChange s) = currentIndex s"
  "isPlaying (onPlaylistChange s) = isPlaying s"
  "stateChangeListeners (onPlaylistChange s) = stateChangeListeners s"
  "timeUpdateListeners (onPlaylistChange s) = timeUpdateListeners s"
  "listenerWidget (onPlaylistChange s) = listenerWidget s"
  "pendingReconnect (onPlaylistChange s) = pendingReconnect s"
  "audioCalls (onPlaylistChange s) = audioCalls s"
  "stateLog (onPlaylistChange s) = stateLog s"
  by (simp_all add: onPlaylistChange_def)

lemma destroy_fields [simp]:
  "players (destroy w s) = players s"
  "activePlayerName (destroy w s) = activePlayerName s"
  "audio (destroy w s) = audio s"
  "currentPlaylist (destroy w s) = currentPlaylist s"
  "currentIndex (destroy w s) = currentIndex s"
  "isPlaying (destroy w s) = isPlaying s"
  "pendingReconnect (destroy w s) = pendingReconnect s"
  "audioCalls (destroy w s) = audioCalls s"
  "stateLog (destroy w s) = stateLog s"
  by (simp_all add: destroy_def disposeStateListener_def disposeTimeListener_def
      split: option.splits)

lemma destroy_player_fields [simp]:
  "players (destroy_player s e) = players s"
  "activePlayerName (destroy_player s e) = activePlayerName s"
  "audio (destroy_player s e) = audio s"
  "currentPlaylist (destroy_player s e) = currentPlaylist s"
  "currentIndex (destroy_player s e) = currentIndex s"
  "isPlaying (destroy_player s e) = isPlaying s"
  "pendingReconnect (destroy_player s e) = pendingReconnect s"
  "audioCalls (destroy_player s e) = audioCalls s"
  "stateLog (destroy_player s e) = stateLog s"
  by (simp_all add: destroy_player_def split: option.splits)

lemma foldl_destroy_player_fields [simp]:
  "players (foldl destroy_player s es) = players s"
  "activePlayerName (foldl destroy_player s es) = activePlayerName s"
  "audio (foldl destroy_player s es) = audio s"
  "currentPlaylist (foldl destroy_player s es) = currentPlaylist s"
  "currentIndex (foldl destroy_player s es) = currentIndex s"
  "isPlaying (foldl destroy_player s es) = isPlaying s"
  "pendingReconnect (foldl destroy_player s es) = pendingReconnect s"
  "audioCalls (foldl destroy_player s es) = audioCalls s"
  "stateLog (foldl destroy_player s es) = stateLog s"
  by (induction es arbitrary: s) simp_all

lemma first_raise_observers:
  "(\<forall>cb \<in> set cbs. f cb = None) \<Longrightarrow> first_raise f cbs = None"
  by (induction cbs) simp_all

lemma notifyStateChange_fields [simp]:
  "players (snd (notifyStateChange s)) = players s"
  "activePlayerName (snd (notifyStateChange s)) = activePlayerName s"
  "audio (snd (notifyStateChange s)) = audio s"
  "currentPlaylist (snd (notifyStateChange s)) = currentPlaylist s"
  "currentIndex (snd (notifyStateChange s)) = currentIndex s"
  "isPlaying (snd (notifyStateChange s)) = isPlaying s"
  "stateChangeListeners (snd (notifyStateChange s)) = stateChangeListeners s"
  "listenerWidget (snd (notifyStateChange s)) = listenerWidget s"
  "pendingReconnect (snd (notifyStateChange s)) = pendingReconnect s"
  "audioCalls (snd (notifyStateChange s)) = audioCalls s"
  "stateLog (snd (notifyStateChange s)) = stateLog s @ [getState s]"
  by (simp_all add: notifyStateChange_def Let_def split: option.splits)

lemma notifyStateChange_returns:
  "\<forall>cb \<in> set (stateChangeListeners s). listenerWidget s cb = None \<Longrightarrow>
   fst (notifyStateChange s) = Inr ()"
  by (simp add: notifyStateChange_def Let_def invoke_state_listener_def first_raise_observers)

lemma and_then_same [simp]:
  "snd (and_then r (\<lambda>s'. (Inr v, s'))) = snd r"
  "fst (and_then r (\<lambda>s'. (Inr v, s'))) = (case fst r of Inl e \<Rightarrow> Inl e | Inr u \<Rightarrow> Inr v)"
  by (simp_all add: and_then_def split: sum.splits)

lemma play_fields [simp]:
  "players (play s) = players s"
  "activePlayerName (play s) = activePlayerName s"
  "audio (play s) = audio s"
  "currentPlaylist (play s) = currentPlaylist s"
  "currentIndex (play s) = currentIndex s"
  "isPlaying (play s) = isPlaying s"
  "stateLog (play s) = stateLog s"
  by (simp_all add: play_def)

lemma pause_fields [simp]:
  "players (pause s) = players s"
  "activePlayerName (pause s) = activePlayerName s"
  "audio (pause s) = audio s"
  "currentPlaylist (pause s) = currentPlaylist s"
  "currentIndex (pause s) = currentIndex s"
  "isPlaying (pause s) = isPlaying s"
  "stateLog (pause s) = stateLog s"
  "audioCalls (pause s) = audioCalls s @ [Pause]"
  by (simp_all add: pause_def)

lemma loadTrack_fields [simp]:
  "players (snd (loadTrack i s)) = players s"
  "activePlayerName (snd (loadTrack i s)) = activePlayerName s"
  "currentPlaylist (snd (loadTrack i s)) = currentPlaylist s"
  "isPlaying (snd (loadTrack i s)) = isPlaying s"
  by (simp_all add: loadTrack_def Let_def)

lemma st_playlistName_getState [simp]: "st_playlistName (getState s) = activePlayerName s"
  by (simp add: getState_def Let_def)

lemma loadTrack_valid:
  assumes "0 \<le> k" and "k < int (length (currentPlaylist s))"
  shows "loadTrack k s = notifyStateChange (loaded k s)"
  using assms by (simp add: loadTrack_def loaded_def Let_def)

lemma loadTrack_invalid:
  "k < 0 \<or> int (length (currentPlaylist s)) \<le> k \<Longrightarrow> loadTrack k s = (Inr (), s)"
  by (auto simp add: loadTrack_def)

lemma loaded_fields [simp]:
  "players (loaded k s) = players s"
  "activePlayerName (loaded k s) = activePlayerName s"
  "currentPlaylist (loaded k s) = currentPlaylist s"
  "currentIndex (loaded k s) = k"
  "isPlaying (loaded k s) = isPlaying s"
  "stateLog (loaded k s) = stateLog s"
  "audioCalls (loaded k s) = audioCalls s @ [SetSrc (src (currentPlaylist s ! nat k))]"
  "el_src (audio (loaded k s)) = resolveURL (audio s) (src (currentPlaylist s ! nat k))"
  by (simp_all add: loaded_def)

lemma logs_active_refl: "logs_active s s"
  by (simp add: logs_active_def)

lemma logs_active_trans: "logs_active s s' \<Longrightarrow> logs_active s' s'' \<Longrightarrow> logs_active s s''"
  by (auto simp: logs_active_def)

lemma logs_active_loadTrack: "logs_active s (snd (loadTrack i s))"
  by (simp add: logs_active_def loadTrack_def Let_def)

lemma logs_active_next: "logs_active s (snd (next s))"
  using logs_active_loadTrack [of s "currentIndex s + 1"] logs_active_loadTrack [of s 0]
  by (simp add: logs_active_def next_def and_then_def split: sum.splits)

lemma logs_active_handle_event: "logs_active s (handle_event e s)"
  by (cases e)
    (simp_all add: logs_active_next, simp_all add: logs_active_def and_then_def split: sum.splits)

lemma logs_active_handle_events: "logs_active s (handle_events es s)"
proof (induction es arbitrary: s)
  case Nil
  show ?case by (simp add: logs_active_refl)
next
  case (Cons e es)
  from logs_active_handle_event [of s e] Cons.IH [of "handle_event e s"]
  show ?case by (simp add: logs_active_trans)
qed

lemma register_fields [simp]:
  "map_of (players (register nm pl opts s)) nm =
     Some \<lparr> name = nm, playlist = pl, options = opts,
            artist = or_null (opt_artist opts), year = or_null (opt_year opts),
            waveforms = (case map_of (players s) nm of None \<Rightarrow> Map.empty | Some p \<Rightarrow> waveforms p) \<rparr>"
  "pendingReconnect (register nm pl opts s) = pendingReconnect s"
  "activePlayerName (register nm pl opts s) = activePlayerName s"
  "isPlaying (register nm pl opts s) = isPlaying s"
  "audio (register nm pl opts s) = audio s"
  by (simp_all add: register_def Let_def update_conv')

lemma getWaveform_register [simp]:
  "getWaveform (register nm pl opts s) m i = getWaveform s m i"
  by (simp add: getWaveform_def register_def Let_def update_conv' split: option.splits)


lemma players_get_Own: "map_of (players s) nm = Some p \<Longrightarrow> players_get s nm = Own p"
  by (simp add: players_get_def)

lemma and_then_returns:
  "fst r = Inr u \<Longrightarrow> and_then r f = f (snd r)"
  by (simp add: and_then_def)

lemma and_then_raises:
  "fst r = Inl e \<Longrightarrow> and_then r f = (Inl e, snd r)"
  by (simp add: and_then_def)

lemma playPlaylist_Own:
  assumes "map_of (players s) nm = Some p" and "0 \<le> i" and "i < int (length (playlist p))"
  shows "playPlaylist nm i s =
           and_then
             (notifyStateChange (loaded i (s\<lparr> activePlayerName := Some nm, currentPlaylist := playlist p \<rparr>)))
             (\<lambda>s'. (Inr (), play s'))"
  using assms by (simp add: playPlaylist_def players_get_Own loadTrack_valid)

lemma playPlaylist_quiet:
  assumes "map_of (players s) nm = Some p" and "0 \<le> i" and "i < int (length (playlist p))"
    and "stateChangeListeners s = []"
  shows "playPlaylist nm i s =
           (Inr (), play (snd (notifyStateChange
              (loaded i (s\<lparr> activePlayerName := Some nm, currentPlaylist := playlist p \<rparr>)))))"
proof -
  let ?l = "loaded i (s\<lparr> activePlayerName := Some nm, currentPlaylist := playlist p \<rparr>)"
  have "fst (notifyStateChange ?l) = Inr ()"
    using assms(4) by (intro notifyStateChange_returns) (simp add: loaded_def)
  then show ?thesis
    unfolding playPlaylist_Own [OF assms(1-3)] by (simp add: and_then_def)
qed

lemma handle_PlayEvent_fields [simp]:
  "players (handle_event PlayEvent s) = players s"
  "activePlayerName (handle_event PlayEvent s) = activePlayerName s"
  "audio (handle_event PlayEvent s) = audio s"
  "currentPlaylist (handle_event PlayEvent s) = currentPlaylist s"
  "currentIndex (handle_event PlayEvent s) = currentIndex s"
  "isPlaying (handle_event PlayEvent s) = True"
  "pendingReconnect (handle_event PlayEvent s) = pendingReconnect s"
  "audioCalls (handle_event PlayEvent s) = audioCalls s"
  "stateChangeListeners (handle_event PlayEvent s) = stateChangeListeners s"
  "listenerWidget (handle_event PlayEvent s) = listenerWidget s"
  by simp_all

lemma play_more_fields [simp]:
  "pendingReconnect (play s) = pendingReconnect s"
  "stateChangeListeners (play s) = stateChangeListeners s"
  "listenerWidget (play s) = listenerWidget s"
  "currentPlaylist s \<noteq> [] \<Longrightarrow> audioCalls (play s) = audioCalls s @ [Play]"
  by (simp_all add: play_def)

lemma loaded_more_fields [simp]:
  "pendingReconnect (loaded k s) = pendingReconnect s"
  "stateChangeListeners (loaded k s) = stateChangeListeners s"
  "listenerWidget (loaded k s) = listenerWidget s"
  "currentTime (audio (loaded k s)) = currentTime (audio s)"
  "duration (audio (loaded k s)) = duration (audio s)"
  "resolveURL (audio (loaded k s)) = resolveURL (audio s)"
  by (simp_all add: loaded_def)

lemma getState_loaded [simp]:
  "st_currentIndex (getState (loaded k s)) = k"
  "st_isPlaying (getState (loaded k s)) = isPlaying s"
  "st_playlistName (getState (loaded k s)) = activePlayerName s"
  "0 \<le> k \<Longrightarrow> k < int (length (currentPlaylist s)) \<Longrightarrow>
     st_currentTrack (getState (loaded k s)) = Some (currentPlaylist s ! nat k)"
  by (auto simp add: getState_def Let_def getCurrentTrack_def at_index_def)

lemma next_before_last:
  assumes "- 1 \<le> currentIndex s" and "currentIndex s < int (length (currentPlaylist s)) - 1"
  shows "next s =
           and_then (notifyStateChange (loaded (currentIndex s + 1) s)) (\<lambda>s'. (Inr (), play s'))"
  using assms by (simp add: next_def loadTrack_valid)

lemma next_at_last:
  assumes "currentPlaylist s \<noteq> []" and "int (length (currentPlaylist s)) - 1 \<le> currentIndex s"
  shows "next s = and_then (notifyStateChange (loaded 0 s)) (\<lambda>s'. (Inr (), pause s'))"
  using assms by (simp add: next_def loadTrack_valid)

lemma and_then_state:
  "snd (and_then r (\<lambda>s'. (Inr v, f s'))) = (case fst r of Inl e \<Rightarrow> snd r | Inr u \<Rightarrow> f (snd r))"
  "fst (and_then r (\<lambda>s'. (Inr v, f s'))) = (case fst r of Inl e \<Rightarrow> Inl e | Inr u \<Rightarrow> Inr v)"
  by (simp_all add: and_then_def split: sum.splits)

lemma tryReconnect_unregistered:
  assumes "pendingReconnect s = Some r" and "playerName r = Some nm"
    and "map_of (players s) nm = None" and "nm \<notin> set Object_prototype_names"
  shows "tryReconnect nm s = (Inr False, s)"
  using assms by (simp add: tryReconnect_def players_get_def)

lemma tryReconnect_inherited:
  assumes "pendingReconnect s = Some r" and "playerName r = Some nm"
    and "map_of (players s) nm = None" and "nm \<in> set Object_prototype_names"
  shows "tryReconnect nm s = (Inl TypeError, s)"
  using assms by (simp add: tryReconnect_def players_get_def)

section \<open>The example sessions, field by field\<close>

lemma two_listeners_list: "stateChangeListeners two_listeners = [0, 1]"
  by (simp add: two_listeners_def addStateListener_def new_AudioManager_def)

lemma two_registered_fields:
  "map_of (players two_registered) (js ''P1'') =
     Some \<lparr> name = js ''P1'', playlist = [track1, track2], options = no_options,
            artist = None, year = None, waveforms = Map.empty \<rparr>"
  "map_of (players two_registered) (js ''P2'') =
     Some \<lparr> name = js ''P2'', playlist = [track3], options = no_options,
            artist = None, year = None, waveforms = Map.empty \<rparr>"
  "activePlayerName two_registered = None"
  "pendingReconnect two_registered = None"
  "audioCalls two_registered = []"
  "stateLog two_registered = []"
  "stateChangeListeners two_registered = []"
  by (simp_all add: two_registered_def register_def new_AudioManager_def onPlaylistChange_def
      no_options_def or_null_def Let_def js_def)

lemma two_registered_audio:
  "audio two_registered =
     \<lparr> el_src = [], currentTime = 0, duration = None, resolveURL = site_url \<rparr>"
  by (simp add: two_registered_def new_AudioManager_def)

lemma playing_P1_fields:
  "map_of (players playing_P1) (js ''P1'') =
     Some \<lparr> name = js ''P1'', playlist = [track1, track2], options = no_options,
            artist = None, year = None, waveforms = Map.empty \<rparr>"
  "map_of (players playing_P1) (js ''P2'') =
     Some \<lparr> name = js ''P2'', playlist = [track3], options = no_options,
            artist = None, year = None, waveforms = Map.empty \<rparr>"
  "activePlayerName playing_P1 = Some (js ''P1'')"
  "audio playing_P1 =
     \<lparr> el_src = site_url (js ''/a/1.mp3''), currentTime = 0, duration = None, resolveURL = site_url \<rparr>"
  "currentPlaylist playing_P1 = [track1, track2]"
  "currentIndex playing_P1 = 0"
  "isPlaying playing_P1 = True"
  "pendingReconnect playing_P1 = None"
  "audioCalls playing_P1 = [SetSrc (js ''/a/1.mp3''), Play]"
  "stateChangeListeners playing_P1 = []"
  unfolding playing_P1_def
    playPlaylist_quiet [OF two_registered_fields(1) _ _ two_registered_fields(7), of 0, simplified]
  by (simp_all add: two_registered_fields two_registered_audio track1_def
      audio_element.equality)

lemma playing_last_fields:
  "activePlayerName playing_last = Some (js ''P1'')"
  "audio playing_last =
     \<lparr> el_src = site_url (js ''/a/2.mp3''), currentTime = 0, duration = None, resolveURL = site_url \<rparr>"
  "currentPlaylist playing_last = [track1, track2]"
  "currentIndex playing_last = 1"
  "isPlaying playing_last = True"
  "audioCalls playing_last = [SetSrc (js ''/a/2.mp3''), Play]"
  "stateChangeListeners playing_last = []"
  unfolding playing_last_def
    playPlaylist_quiet [OF two_registered_fields(1) _ _ two_registered_fields(7), of 1, simplified]
  by (simp_all add: two_registered_fields two_registered_audio track2_def
      audio_element.equality)

lemma playing_P1_registry: "players playing_P1 \<noteq> []"
  using playing_P1_fields(1) by auto

lemma cleared_P1_fields:
  "players cleared_P1 = []"
  "pendingReconnect cleared_P1 =
     Some \<lparr> playerName = Some (js ''P1''), pr_src = site_url (js ''/a/1.mp3''),
            pr_time = 0, playing = True \<rparr>"
  "activePlayerName cleared_P1 = Some (js ''P1'')"
  by (simp_all add: cleared_P1_def clearPlayers_def Let_def playing_P1_fields)

lemma master_manager_fields:
  "map_of (players master_manager) (js ''Master'') =
     Some \<lparr> name = js ''Master'', playlist = [track1, track2], options = no_options,
            artist = None, year = None, waveforms = Map.empty \<rparr>"
  by (simp add: master_manager_def register_def Let_def new_AudioManager_def onPlaylistChange_def
      or_null_def no_options_def)

lemma master_percent_fields:
  "map_of (players master_percent) (js ''Master'') =
     Some \<lparr> name = js ''Master'', playlist = [track_percent, track2], options = no_options,
            artist = None, year = None, waveforms = Map.empty \<rparr>"
  by (simp add: master_percent_def register_def Let_def new_AudioManager_def onPlaylistChange_def
      or_null_def no_options_def)

lemma example_decodes:
  "decodeURIComponent (src track1) = Inr (js ''/a/1.mp3'')"
  "decodeURIComponent (src track2) = Inr (js ''/a/2.mp3'')"
  "decodeURIComponent (src track_percent) = Inl URIError"
  by (simp_all add: track1_def track2_def track_percent_def js_def hexDigit_def)

lemma constructor_inherited: "js ''constructor'' \<in> set Object_prototype_names"
  by (simp add: Object_prototype_names_def)

lemma cleared_constructor_fields:
  "players cleared_constructor = []"
  "pendingReconnect cleared_constructor =
     Some \<lparr> playerName = Some (js ''constructor''), pr_src = site_url (js ''/a/1.mp3''),
            pr_time = 0, playing = True \<rparr>"
proof -
  let ?s = "register (js ''constructor'') [track1] no_options new_AudioManager"
  have l: "stateChangeListeners ?s = []"
    by (simp add: register_def Let_def onPlaylistChange_def new_AudioManager_def)
  have a: "audio ?s = \<lparr> el_src = [], currentTime = 0, duration = None, resolveURL = site_url \<rparr>"
    by (simp add: new_AudioManager_def)
  note pp = playPlaylist_quiet [OF register_fields(1) _ _ l, of 0, simplified]
  show "players cleared_constructor = []"
    by (simp add: cleared_constructor_def clearPlayers_def Let_def)
  show "pendingReconnect cleared_constructor =
     Some \<lparr> playerName = Some (js ''constructor''), pr_src = site_url (js ''/a/1.mp3''),
            pr_time = 0, playing = True \<rparr>"
    unfolding cleared_constructor_def pp
    by (simp add: clearPlayers_def Let_def track1_def new_AudioManager_def)
qed

lemma playing_last_registry:
  "map_of (players playing_last) (js ''P2'') =
     Some \<lparr> name = js ''P2'', playlist = [track3], options = no_options,
            artist = None, year = None, waveforms = Map.empty \<rparr>"
  unfolding playing_last_def
    playPlaylist_quiet [OF two_registered_fields(1) _ _ two_registered_fields(7), of 1, simplified]
  by (simp add: two_registered_fields)

lemma stale_index_fields:
  "activePlayerName stale_index = Some (js ''P2'')"
  "currentPlaylist stale_index = [track3]"
  "currentIndex stale_index = 1"
  "isPlaying stale_index = True"
  "audioCalls stale_index = [SetSrc (js ''/a/2.mp3''), Play, Play]"
  "stateChangeListeners stale_index = []"
  "resolveURL (audio stale_index) = site_url"
  by (simp_all add: stale_index_def playPlaylist_def players_get_Own [OF playing_last_registry]
      loadTrack_invalid and_then_def playing_last_fields)

lemma alias_page_fields:
  "map_of (players alias_page) (js ''Master'') =
     Some \<lparr> name = js ''Master'', playlist = [track2, track_percent], options = no_options,
            artist = None, year = None, waveforms = Map.empty \<rparr>"
  "stateChangeListeners alias_page = [3]"
  "listenerWidget alias_page = [3 \<mapsto> album_widget]"
  "audioCalls alias_page = []"
  "resolveURL (audio alias_page) = site_url"
  by (simp_all add: alias_page_def addStateListener_def addTimeListener_def register_def Let_def
      onPlaylistChange_def new_AudioManager_def no_options_def or_null_def)

lemma album_widget_hears:
  assumes "map_of (players s) (js ''Master'') =
             Some \<lparr> name = js ''Master'', playlist = [track2, track_percent], options = no_options,
                    artist = None, year = None, waveforms = Map.empty \<rparr>"
    and "st_playlistName state = Some (js ''Master'')"
  shows "st_currentIndex state = 0 \<Longrightarrow> handleManagerState album_widget s state = None"
    and "st_currentIndex state = 1 \<Longrightarrow> handleManagerState album_widget s state = Some URIError"
  using assms
  by (simp_all add: handleManagerState_def findLocalIndex_def players_get_Own Let_def
      album_widget_def or_null_def at_index_def example_decodes findIndexE_def sameDecoded_def
      js_def [of "''Master''"])

lemma alias_listening_fields:
  "map_of (players alias_listening) (js ''Master'') =
     Some \<lparr> name = js ''Master'', playlist = [track2, track_percent], options = no_options,
            artist = None, year = None, waveforms = Map.empty \<rparr>"
  "stateChangeListeners alias_listening = [3]"
  "listenerWidget alias_listening = [3 \<mapsto> album_widget]"
  "activePlayerName alias_listening = Some (js ''Master'')"
  "currentPlaylist alias_listening = [track2, track_percent]"
  "currentIndex alias_listening = 0"
  "isPlaying alias_listening = True"
  "audioCalls alias_listening = [SetSrc (js ''/a/2.mp3''), Play]"
proof -
  let ?p = "\<lparr> name = js ''Master'', playlist = [track2, track_percent], options = no_options,
              artist = None, year = None, waveforms = Map.empty \<rparr>"
  let ?l = "loaded 0 (alias_page\<lparr> activePlayerName := Some (js ''Master''),
                                  currentPlaylist := [track2, track_percent] \<rparr>)"
  note bf = alias_page_fields
  have pp: "playPlaylist (js ''Master'') 0 alias_page =
      and_then (notifyStateChange ?l) (\<lambda>s'. (Inr (), play s'))"
    using playPlaylist_Own [OF bf(1), of 0] by simp
  have hear: "handleManagerState album_widget ?l (getState ?l) = None"
    by (rule album_widget_hears(1)) (simp_all add: bf)
  have quiet: "fst (notifyStateChange ?l) = Inr ()"
    by (simp add: notifyStateChange_def Let_def invoke_state_listener_def bf hear)
  have st: "alias_listening = handle_event PlayEvent (play (snd (notifyStateChange ?l)))"
    unfolding alias_listening_def pp by (simp add: and_then_def quiet)
  show "map_of (players alias_listening) (js ''Master'') = Some ?p"
    "stateChangeListeners alias_listening = [3]"
    "listenerWidget alias_listening = [3 \<mapsto> album_widget]"
    "activePlayerName alias_listening = Some (js ''Master'')"
    "currentPlaylist alias_listening = [track2, track_percent]"
    "currentIndex alias_listening = 0"
    "isPlaying alias_listening = True"
    unfolding st by (simp_all add: bf)
  have "audioCalls alias_listening = [SetSrc (src track2), Play]"
    unfolding st by (simp add: bf)
  then show "audioCalls alias_listening = [SetSrc (js ''/a/2.mp3''), Play]"
    by (simp add: track2_def)
qed

lemma next_alias_listening_raises:
  "fst (notifyStateChange (loaded 1 alias_listening)) = Inl URIError"
proof -
  have "handleManagerState album_widget (loaded 1 alias_listening)
      (getState (loaded 1 alias_listening)) = Some URIError"
    by (rule album_widget_hears(2)) (simp_all add: alias_listening_fields)
  then show ?thesis
    by (simp add: notifyStateChange_def Let_def invoke_state_listener_def alias_listening_fields)
qed

section \<open>The claims\<close>

text \<open>
  C1. With \<open>A\<close> the active playlist, \<open>B\<close> another registered playlist and \<open>i\<close> an index of a
  track of \<open>B\<close>, \<open>playPlaylist(B, i)\<close> makes \<open>B\<close> the active playlist with its tracks and
  \<open>currentIndex = i\<close>, so that the current track is track \<open>i\<close> of \<open>B\<close>; this holds whether the
  call returns or a state listener raises during its broadcast. The listing of playlists
  flags \<open>B\<close> and no other name as active. The call broadcasts one snapshot, which names \<open>B\<close>
  with index \<open>i\<close> and that track, and every snapshot broadcast from the call on, through any
  sequence of events of the audio element, names \<open>B\<close> as the playlist, never \<open>A\<close>.
\<close>

theorem playPlaylist_replaces_selection:
  assumes "map_of (players s) B = Some p"
    and "0 \<le> i" and "i < int (length (playlist p))"
    and "activePlayerName s = Some A" and "A \<noteq> B"
  shows "activePlayerName (snd (playPlaylist B i s)) = Some B
         \<and> currentIndex (snd (playPlaylist B i s)) = i
         \<and> currentPlaylist (snd (playPlaylist B i s)) = playlist p
         \<and> getCurrentTrack (snd (playPlaylist B i s)) = Some (playlist p ! nat i)
         \<and> list_all (\<lambda>e. isActive e = (pi_name e = B)) (getPlaylists (snd (playPlaylist B i s)))
         \<and> length (stateLog (snd (playPlaylist B i s))) = length (stateLog s) + 1
         \<and> st_playlistName (last (stateLog (snd (playPlaylist B i s)))) = Some B
         \<and> st_currentIndex (last (stateLog (snd (playPlaylist B i s)))) = i
         \<and> st_currentTrack (last (stateLog (snd (playPlaylist B i s)))) = Some (playlist p ! nat i)
         \<and> list_all (\<lambda>x. st_playlistName x = Some B \<and> st_playlistName x \<noteq> Some A)
              (drop (length (stateLog s))
                 (stateLog (handle_events evs (snd (playPlaylist B i s)))))"
proof -
  let ?s0 = "s\<lparr> activePlayerName := Some B, currentPlaylist := playlist p \<rparr>"
  let ?r = "snd (playPlaylist B i s)"
  have valid: "0 \<le> i" "i < int (length (currentPlaylist ?s0))"
    using assms(2,3) by simp_all
  note pp = playPlaylist_Own [OF assms(1-3)]
  have active: "activePlayerName ?r = Some B"
    by (simp add: pp and_then_state split: sum.splits)
  have index: "currentIndex ?r = i"
    by (simp add: pp and_then_state split: sum.splits)
  have tracks: "currentPlaylist ?r = playlist p"
    by (simp add: pp and_then_state split: sum.splits)
  have current: "getCurrentTrack ?r = Some (playlist p ! nat i)"
    using assms(2,3) by (auto simp add: getCurrentTrack_def index tracks at_index_def)
  have log: "stateLog ?r = stateLog s @ [getState (loaded i ?s0)]"
    by (simp add: pp and_then_state split: sum.splits)
  have listing: "list_all (\<lambda>e. isActive e = (pi_name e = B)) (getPlaylists ?r)"
    by (auto simp: getPlaylists_def active list_all_iff)
  have snap: "st_playlistName (last (stateLog ?r)) = Some B"
    "st_currentIndex (last (stateLog ?r)) = i"
    by (simp_all add: log)
  have snap_track: "st_currentTrack (last (stateLog ?r)) = Some (playlist p ! nat i)"
    using getState_loaded(4) [OF valid] by (simp add: log)
  from logs_active_handle_events [of ?r evs]
  obtain xs where xs: "stateLog (handle_events evs ?r) = stateLog ?r @ xs"
    and all: "list_all (\<lambda>x. st_playlistName x = Some B) xs"
    by (auto simp: logs_active_def active)
  have later: "list_all (\<lambda>x. st_playlistName x = Some B \<and> st_playlistName x \<noteq> Some A)
      (drop (length (stateLog s)) (stateLog (handle_events evs ?r)))"
    using all assms(5) by (simp add: xs log list_all_iff)
  show ?thesis
    using active index tracks current listing snap snap_track later by (simp add: log)
qed

theorem playPlaylist_replaces_selection_witness:
  "activePlayerName playing_P1 = Some (js ''P1'')
   \<and> activePlayerName (snd (playPlaylist (js ''P2'') 0 playing_P1)) = Some (js ''P2'')
   \<and> currentIndex (snd (playPlaylist (js ''P2'') 0 playing_P1)) = 0
   \<and> currentPlaylist (snd (playPlaylist (js ''P2'') 0 playing_P1)) = [track3]
   \<and> getCurrentTrack (snd (playPlaylist (js ''P2'') 0 playing_P1)) = Some track3
   \<and> st_currentTrack (last (stateLog (snd (playPlaylist (js ''P2'') 0 playing_P1)))) = Some track3
   \<and> list_all (\<lambda>x. st_playlistName x = Some (js ''P2''))
        (drop (length (stateLog playing_P1))
           (stateLog (handle_events [PlayEvent, Ended]
              (snd (playPlaylist (js ''P2'') 0 playing_P1)))))"
proof -
  let ?p = "\<lparr> name = js ''P2'', playlist = [track3], options = no_options,
              artist = None, year = None, waveforms = Map.empty \<rparr>"
  have h1: "map_of (players playing_P1) (js ''P2'') = Some ?p"
    and h2: "(0::int) \<le> 0" and h3: "0 < int (length (playlist ?p))"
    and h4: "activePlayerName playing_P1 = Some (js ''P1'')"
    by (simp_all add: playing_P1_fields)
  have h5: "js ''P1'' \<noteq> js ''P2''"
    by (simp add: js_def)
  from playPlaylist_replaces_selection [OF h1 h2 h3 h4 h5, of "[PlayEvent, Ended]"] h4
  show ?thesis
    by (simp add: list_all_iff)
qed

text \<open>
  C2. A broadcast is total (no callback's change of the listener list makes it fail) and
  never invokes more callbacks than were registered when it began. When the callbacks
  registered at its start only add listeners, each of them is invoked exactly once, in
  order of registration, and the added listeners are appended without being invoked in
  that broadcast.
\<close>

theorem broadcast_tolerates_additions:
  "length (fst (notifyStateListeners beh s)) \<le> length (stateChangeListeners s)
   \<and> ((\<forall>c \<in> set (stateChangeListeners s). adds_only (beh c)) \<longrightarrow>
        fst (notifyStateListeners beh s) = stateChangeListeners s
        \<and> stateChangeListeners (snd (notifyStateListeners beh s)) =
            stateChangeListeners s
              @ concat (map (\<lambda>c. subscriptions (beh c)) (stateChangeListeners s)))"
proof -
  have bound: "length (fst (notifyStateListeners beh s)) \<le> length (stateChangeListeners s)"
    using forEach_from_bound [of beh "length (stateChangeListeners s)" 0 "stateChangeListeners s" "[]"]
    by (simp add: notifyStateListeners_def forEach_listeners_def case_prod_beta)
  have adds: "fst (notifyStateListeners beh s) = stateChangeListeners s
        \<and> stateChangeListeners (snd (notifyStateListeners beh s)) =
            stateChangeListeners s
              @ concat (map (\<lambda>c. subscriptions (beh c)) (stateChangeListeners s))"
    if "\<forall>c \<in> set (stateChangeListeners s). adds_only (beh c)"
    using forEach_from_adds_only [OF that, of 0 "[]" "[]"]
    by (simp add: notifyStateListeners_def forEach_listeners_def case_prod_beta)
  from bound adds show ?thesis by blast
qed

theorem broadcast_tolerates_additions_witness:
  "stateChangeListeners two_listeners = [0, 1]
   \<and> fst (notifyStateListeners subscribing two_listeners) = [0, 1]
   \<and> stateChangeListeners (snd (notifyStateListeners subscribing two_listeners)) = [0, 1, 5]"
proof -
  have h: "\<forall>c \<in> set (stateChangeListeners two_listeners). adds_only (subscribing c)"
    by (simp add: two_listeners_list subscribing_def)
  from broadcast_tolerates_additions [of subscribing two_listeners, THEN conjunct2, THEN mp, OF h]
  show ?thesis
    by (simp add: two_listeners_list subscribing_def)
qed

text \<open>
  C2, as first stated, fails when a listener disposes itself during the broadcast: the
  list is not copied, the next listener moves into the slot just visited and is skipped.
\<close>

theorem self_disposal_skips_next_counterexample:
  "stateChangeListeners two_listeners = [0, 1]
   \<and> fst (notifyStateListeners self_removing two_listeners) = [0]"
  by (simp add: two_listeners_list notifyStateListeners_def forEach_listeners_def
      forEach_from.simps self_removing_def dispose_remove1)

text \<open>
  C3. \<open>tryReconnect(name)\<close> fails and leaves the pending record untouched when there is no
  pending record or when its captured name is not \<open>name\<close>. When the captured name is \<open>name\<close>
  and the playlist registered under \<open>name\<close> has no track whose \<open>src\<close> is contained in the
  captured source, it fails and discards the record; after that a further call for the same
  name fails, also after the name is registered again.
\<close>

theorem tryReconnect_failures:
  "(pendingReconnect s = None \<longrightarrow> tryReconnect nm s = (Inr False, s))
   \<and> (pendingReconnect s = Some r \<and> playerName r \<noteq> Some nm \<longrightarrow> tryReconnect nm s = (Inr False, s))
   \<and> (pendingReconnect s = Some r \<and> playerName r = Some nm \<and> map_of (players s) nm = Some p
        \<and> (\<forall>t \<in> set (playlist p). \<not> includes_str (pr_src r) (src t)) \<longrightarrow>
        tryReconnect nm s = (Inr False, s\<lparr> pendingReconnect := None \<rparr>)
        \<and> tryReconnect nm (snd (tryReconnect nm s)) = (Inr False, snd (tryReconnect nm s))
        \<and> fst (tryReconnect nm (register nm pl opts (snd (tryReconnect nm s)))) = Inr False)"
proof -
  have third: "tryReconnect nm s = (Inr False, s\<lparr> pendingReconnect := None \<rparr>)"
    if "pendingReconnect s = Some r" "playerName r = Some nm" "map_of (players s) nm = Some p"
      "\<forall>t \<in> set (playlist p). \<not> includes_str (pr_src r) (src t)"
    using that findIndex_none [of "playlist p" "\<lambda>t. includes_str (pr_src r) (src t)"]
    by (simp add: tryReconnect_def Let_def players_get_Own)
  have gone: "tryReconnect nm s' = (Inr False, s')" if "pendingReconnect s' = None" for s'
    using that by (simp add: tryReconnect_def)
  show ?thesis
    using third gone [of "s\<lparr> pendingReconnect := None \<rparr>"]
      gone [of "register nm pl opts (s\<lparr> pendingReconnect := None \<rparr>)"]
    by (auto simp add: tryReconnect_def)
qed

theorem tryReconnect_failures_witness:
  "tryReconnect (js ''P1'') playing_P1 = (Inr False, playing_P1)
   \<and> fst (tryReconnect (js ''P2'') cleared_P1) = Inr False
   \<and> pendingReconnect (snd (tryReconnect (js ''P2'') cleared_P1)) = pendingReconnect cleared_P1
   \<and> pendingReconnect cleared_P1 \<noteq> None
   \<and> fst (tryReconnect (js ''P1'') (register (js ''P1'') [track3] no_options cleared_P1)) = Inr False
   \<and> pendingReconnect
        (snd (tryReconnect (js ''P1'') (register (js ''P1'') [track3] no_options cleared_P1))) = None
   \<and> fst (tryReconnect (js ''P1'')
            (register (js ''P1'') [track1] no_options
               (snd (tryReconnect (js ''P1'') (register (js ''P1'') [track3] no_options cleared_P1)))))
       = Inr False"
proof -
  let ?r = "\<lparr> playerName = Some (js ''P1''), pr_src = site_url (js ''/a/1.mp3''), pr_time = 0, playing = True \<rparr>"
  let ?s3 = "register (js ''P1'') [track3] no_options cleared_P1"
  let ?p = "\<lparr> name = js ''P1'', playlist = [track3], options = no_options,
              artist = or_null (opt_artist no_options), year = or_null (opt_year no_options),
              waveforms = Map.empty \<rparr>"
  have a: "tryReconnect (js ''P1'') playing_P1 = (Inr False, playing_P1)"
    using tryReconnect_failures [of playing_P1 "js ''P1''"]
    by (simp add: playing_P1_fields)
  have b: "tryReconnect (js ''P2'') cleared_P1 = (Inr False, cleared_P1)"
    using tryReconnect_failures [of cleared_P1 "js ''P2''" ?r]
    by (simp add: cleared_P1_fields js_def)
  have h: "pendingReconnect ?s3 = Some ?r \<and> playerName ?r = Some (js ''P1'')
      \<and> map_of (players ?s3) (js ''P1'') = Some ?p
      \<and> (\<forall>t \<in> set (playlist ?p). \<not> includes_str (pr_src ?r) (src t))"
    by (simp add: cleared_P1_fields track3_def site_url_def js_def)
  note c = tryReconnect_failures [of ?s3 "js ''P1''" ?r ?p "[track1]" no_options,
      THEN conjunct2, THEN conjunct2, THEN mp, OF h]
  note c1 = c [THEN conjunct1] and c3 = c [THEN conjunct2, THEN conjunct2]
  show ?thesis
    unfolding a b
    by (intro conjI; (rule c3 | simp add: c1 cleared_P1_fields))
qed

text \<open>
  C4. With a non-empty track list, \<open>next()\<close> at an index before the last loads the track at
  \<open>currentIndex + 1\<close>, and at the last index, or at an index beyond the track list, loads the
  first track: the index is current, the element has the track's source, and one snapshot is
  broadcast, which shows the new index and the new track. \<open>isPlaying\<close> is not written: in the
  state after the call and in that snapshot it is what it was before the call. When the
  broadcast returns, the element is then asked to play in the first case and to pause in
  the second; when a state listener raises during the broadcast, the exception leaves
  \<open>next()\<close> and nothing more is asked of the element. The broadcast returns when no state
  listener is a widget's. (An index below \<open>-1\<close>, which no call of the manager produces, loads
  nothing and asks the element to play.)
\<close>

theorem next_loads_and_requests:
  assumes "currentPlaylist s \<noteq> []"
  shows
    "(- 1 \<le> currentIndex s \<and> currentIndex s < int (length (currentPlaylist s)) - 1 \<longrightarrow>
        currentIndex (snd (next s)) = currentIndex s + 1
      \<and> el_src (audio (snd (next s)))
          = resolveURL (audio s) (src (currentPlaylist s ! nat (currentIndex s + 1)))
      \<and> isPlaying (snd (next s)) = isPlaying s
      \<and> stateLog (snd (next s)) = stateLog s @ [getState (loaded (currentIndex s + 1) s)]
      \<and> st_currentIndex (last (stateLog (snd (next s)))) = currentIndex s + 1
      \<and> st_currentTrack (last (stateLog (snd (next s))))
          = Some (currentPlaylist s ! nat (currentIndex s + 1))
      \<and> st_isPlaying (last (stateLog (snd (next s)))) = isPlaying s
      \<and> fst (next s) = fst (notifyStateChange (loaded (currentIndex s + 1) s))
      \<and> audioCalls (snd (next s))
          = audioCalls s @ [SetSrc (src (currentPlaylist s ! nat (currentIndex s + 1)))]
              @ (case fst (next s) of Inl e \<Rightarrow> [] | Inr u \<Rightarrow> [Play]))
     \<and> (int (length (currentPlaylist s)) - 1 \<le> currentIndex s \<longrightarrow>
        currentIndex (snd (next s)) = 0
      \<and> el_src (audio (snd (next s))) = resolveURL (audio s) (src (currentPlaylist s ! 0))
      \<and> isPlaying (snd (next s)) = isPlaying s
      \<and> stateLog (snd (next s)) = stateLog s @ [getState (loaded 0 s)]
      \<and> st_currentIndex (last (stateLog (snd (next s)))) = 0
      \<and> st_currentTrack (last (stateLog (snd (next s)))) = Some (currentPlaylist s ! 0)
      \<and> st_isPlaying (last (stateLog (snd (next s)))) = isPlaying s
      \<and> fst (next s) = fst (notifyStateChange (loaded 0 s))
      \<and> audioCalls (snd (next s))
          = audioCalls s @ [SetSrc (src (currentPlaylist s ! 0))]
              @ (case fst (next s) of Inl e \<Rightarrow> [] | Inr u \<Rightarrow> [Pause]))
     \<and> (currentIndex s < - 1 \<longrightarrow> next s = (Inr (), play s))
     \<and> ((\<forall>cb \<in> set (stateChangeListeners s). listenerWidget s cb = None) \<longrightarrow>
          fst (next s) = Inr ())"
proof (intro conjI impI)
  assume a: "- 1 \<le> currentIndex s \<and> currentIndex s < int (length (currentPlaylist s)) - 1"
  let ?k = "currentIndex s + 1"
  have valid: "0 \<le> ?k" "?k < int (length (currentPlaylist s))"
    using a by simp_all
  note n = next_before_last [OF a [THEN conjunct1] a [THEN conjunct2]]
  show "currentIndex (snd (next s)) = ?k"
    by (simp add: n and_then_state split: sum.splits)
  show "el_src (audio (snd (next s))) = resolveURL (audio s) (src (currentPlaylist s ! nat ?k))"
    by (simp add: n and_then_state split: sum.splits)
  show "isPlaying (snd (next s)) = isPlaying s"
    by (simp add: n and_then_state split: sum.splits)
  show log: "stateLog (snd (next s)) = stateLog s @ [getState (loaded ?k s)]"
    by (simp add: n and_then_state split: sum.splits)
  show "st_currentIndex (last (stateLog (snd (next s)))) = ?k"
    by (simp add: log)
  show "st_currentTrack (last (stateLog (snd (next s)))) = Some (currentPlaylist s ! nat ?k)"
    using valid by (simp add: log)
  show "st_isPlaying (last (stateLog (snd (next s)))) = isPlaying s"
    by (simp add: log)
  show "fst (next s) = fst (notifyStateChange (loaded ?k s))"
    by (simp add: n and_then_state split: sum.splits)
  show "audioCalls (snd (next s))
      = audioCalls s @ [SetSrc (src (currentPlaylist s ! nat ?k))]
          @ (case fst (next s) of Inl e \<Rightarrow> [] | Inr u \<Rightarrow> [Play])"
    using assms by (simp add: n and_then_state split: sum.splits)
next
  assume b: "int (length (currentPlaylist s)) - 1 \<le> currentIndex s"
  have valid: "(0::int) \<le> 0" "0 < int (length (currentPlaylist s))"
    using assms by simp_all
  note n = next_at_last [OF assms b]
  show "currentIndex (snd (next s)) = 0"
    by (simp add: n and_then_state split: sum.splits)
  show "el_src (audio (snd (next s))) = resolveURL (audio s) (src (currentPlaylist s ! 0))"
    using loaded_fields(8) [of 0 s] by (simp add: n and_then_state split: sum.splits)
  show "isPlaying (snd (next s)) = isPlaying s"
    by (simp add: n and_then_state split: sum.splits)
  show log: "stateLog (snd (next s)) = stateLog s @ [getState (loaded 0 s)]"
    by (simp add: n and_then_state split: sum.splits)
  show "st_currentIndex (last (stateLog (snd (next s)))) = 0"
    by (simp add: log)
  show "st_currentTrack (last (stateLog (snd (next s)))) = Some (currentPlaylist s ! 0)"
    using getState_loaded(4) [OF valid] by (simp add: log)
  show "st_isPlaying (last (stateLog (snd (next s)))) = isPlaying s"
    by (simp add: log)
  show "fst (next s) = fst (notifyStateChange (loaded 0 s))"
    by (simp add: n and_then_state split: sum.splits)
  show "audioCalls (snd (next s))
      = audioCalls s @ [SetSrc (src (currentPlaylist s ! 0))]
          @ (case fst (next s) of Inl e \<Rightarrow> [] | Inr u \<Rightarrow> [Pause])"
    using loaded_fields(7) [of 0 s] by (simp add: n and_then_state split: sum.splits)
next
  assume c: "currentIndex s < - 1"
  then have "currentIndex s < int (length (currentPlaylist s)) - 1"
    by linarith
  with c show "next s = (Inr (), play s)"
    by (simp add: next_def loadTrack_invalid and_then_def)
next
  assume q: "\<forall>cb \<in> set (stateChangeListeners s). listenerWidget s cb = None"
  have quiet: "fst (notifyStateChange (loaded k s)) = Inr ()" for k
    using q by (intro notifyStateChange_returns) simp
  consider (below) "currentIndex s < - 1"
    | (before) "- 1 \<le> currentIndex s" "currentIndex s < int (length (currentPlaylist s)) - 1"
    | (last) "int (length (currentPlaylist s)) - 1 \<le> currentIndex s"
    by linarith
  then show "fst (next s) = Inr ()"
  proof cases
    case below
    then have "currentIndex s < int (length (currentPlaylist s)) - 1"
      by linarith
    with below show ?thesis
      by (simp add: next_def loadTrack_invalid and_then_def)
  next
    case before
    show ?thesis
      by (simp add: next_before_last [OF before] and_then_state quiet)
  next
    case last
    show ?thesis
      by (simp add: next_at_last [OF assms last] and_then_state quiet)
  qed
qed

theorem next_loads_and_requests_witness:
  "currentIndex (snd (next playing_P1)) = 1
   \<and> el_src (audio (snd (next playing_P1))) = site_url (js ''/a/2.mp3'')
   \<and> fst (next playing_P1) = Inr ()
   \<and> audioCalls (snd (next playing_P1)) = audioCalls playing_P1 @ [SetSrc (js ''/a/2.mp3''), Play]
   \<and> isPlaying (snd (next playing_P1))
   \<and> st_isPlaying (last (stateLog (snd (next playing_P1))))
   \<and> currentIndex (snd (next playing_last)) = 0
   \<and> el_src (audio (snd (next playing_last))) = site_url (js ''/a/1.mp3'')
   \<and> fst (next playing_last) = Inr ()
   \<and> audioCalls (snd (next playing_last)) = audioCalls playing_last @ [SetSrc (js ''/a/1.mp3''), Pause]
   \<and> st_currentIndex (last (stateLog (snd (next playing_last)))) = 0
   \<and> currentIndex stale_index = 1 \<and> length (currentPlaylist stale_index) = 1
   \<and> currentIndex (snd (next stale_index)) = 0
   \<and> el_src (audio (snd (next stale_index))) = site_url (js ''/b/3.mp3'')
   \<and> audioCalls (snd (next stale_index)) = audioCalls stale_index @ [SetSrc (js ''/b/3.mp3''), Pause]
   \<and> fst (next alias_listening) = Inl URIError
   \<and> audioCalls (snd (next alias_listening)) = audioCalls alias_listening @ [SetSrc (js ''/a/100%.mp3'')]
   \<and> next (playing_P1\<lparr> currentIndex := - 2 \<rparr>)
       = (Inr (), (playing_P1\<lparr> currentIndex := - 2 \<rparr>)
                    \<lparr> audioCalls := [SetSrc (js ''/a/1.mp3''), Play, Play] \<rparr>)"
proof -
  let ?neg = "playing_P1\<lparr> currentIndex := - 2 \<rparr>"
  have ne: "currentPlaylist playing_P1 \<noteq> []" "currentPlaylist playing_last \<noteq> []"
    "currentPlaylist alias_listening \<noteq> []" "currentPlaylist stale_index \<noteq> []"
    "currentPlaylist ?neg \<noteq> []"
    by (simp_all add: playing_P1_fields playing_last_fields alias_listening_fields
        stale_index_fields)
  have a: "- 1 \<le> currentIndex playing_P1
      \<and> currentIndex playing_P1 < int (length (currentPlaylist playing_P1)) - 1"
    by (simp add: playing_P1_fields)
  have b: "int (length (currentPlaylist playing_last)) - 1 \<le> currentIndex playing_last"
    by (simp add: playing_last_fields)
  have c: "- 1 \<le> currentIndex alias_listening
      \<and> currentIndex alias_listening < int (length (currentPlaylist alias_listening)) - 1"
    by (simp add: alias_listening_fields)
  have d: "int (length (currentPlaylist stale_index)) - 1 \<le> currentIndex stale_index"
    by (simp add: stale_index_fields)
  have e: "currentIndex ?neg < - 1"
    by simp
  have q1: "\<forall>cb \<in> set (stateChangeListeners playing_P1). listenerWidget playing_P1 cb = None"
    and q2: "\<forall>cb \<in> set (stateChangeListeners playing_last). listenerWidget playing_last cb = None"
    and q4: "\<forall>cb \<in> set (stateChangeListeners stale_index). listenerWidget stale_index cb = None"
    by (simp_all add: playing_P1_fields playing_last_fields stale_index_fields)
  note T1 = next_loads_and_requests [OF ne(1)]
  note T2 = next_loads_and_requests [OF ne(2)]
  note T3 = next_loads_and_requests [OF ne(3)]
  note T4 = next_loads_and_requests [OF ne(4)]
  note T5 = next_loads_and_requests [OF ne(5)]
  note mid = T1 [THEN conjunct1, THEN mp, OF a]
  note r1 = T1 [THEN conjunct2, THEN conjunct2, THEN conjunct2, THEN mp, OF q1]
  note lst = T2 [THEN conjunct2, THEN conjunct1, THEN mp, OF b]
  note r2 = T2 [THEN conjunct2, THEN conjunct2, THEN conjunct2, THEN mp, OF q2]
  note ali = T3 [THEN conjunct1, THEN mp, OF c]
  note stl = T4 [THEN conjunct2, THEN conjunct1, THEN mp, OF d]
  note r4 = T4 [THEN conjunct2, THEN conjunct2, THEN conjunct2, THEN mp, OF q4]
  note neg = T5 [THEN conjunct2, THEN conjunct2, THEN conjunct1, THEN mp, OF e]
  have r3: "fst (next alias_listening) = Inl URIError"
    using ali next_alias_listening_raises by (simp add: alias_listening_fields)
  have calls1: "audioCalls (snd (next playing_P1))
      = audioCalls playing_P1 @ [SetSrc (js ''/a/2.mp3''), Play]"
    using mid [THEN conjunct2, THEN conjunct2, THEN conjunct2, THEN conjunct2, THEN conjunct2,
        THEN conjunct2, THEN conjunct2, THEN conjunct2]
    by (simp add: r1 playing_P1_fields track2_def)
  have calls2: "audioCalls (snd (next playing_last))
      = audioCalls playing_last @ [SetSrc (js ''/a/1.mp3''), Pause]"
    using lst [THEN conjunct2, THEN conjunct2, THEN conjunct2, THEN conjunct2, THEN conjunct2,
        THEN conjunct2, THEN conjunct2, THEN conjunct2]
    by (simp add: r2 playing_last_fields track1_def)
  have calls3: "audioCalls (snd (next alias_listening))
      = audioCalls alias_listening @ [SetSrc (js ''/a/100%.mp3'')]"
    using ali [THEN conjunct2, THEN conjunct2, THEN conjunct2, THEN conjunct2, THEN conjunct2,
        THEN conjunct2, THEN conjunct2, THEN conjunct2]
    by (simp add: r3 alias_listening_fields track_percent_def)
  have calls4: "audioCalls (snd (next stale_index))
      = audioCalls stale_index @ [SetSrc (js ''/b/3.mp3''), Pause]"
    using stl [THEN conjunct2, THEN conjunct2, THEN conjunct2, THEN conjunct2, THEN conjunct2,
        THEN conjunct2, THEN conjunct2, THEN conjunct2]
    by (simp add: r4 stale_index_fields track3_def)
  have i1: "currentIndex (snd (next playing_P1)) = 1"
    using mid [THEN conjunct1] by (simp add: playing_P1_fields)
  have s1: "el_src (audio (snd (next playing_P1))) = site_url (js ''/a/2.mp3'')"
    using mid [THEN conjunct2, THEN conjunct1] by (simp add: playing_P1_fields track2_def)
  have p1: "isPlaying (snd (next playing_P1))"
    using mid [THEN conjunct2, THEN conjunct2, THEN conjunct1] by (simp add: playing_P1_fields)
  have sp1: "st_isPlaying (last (stateLog (snd (next playing_P1))))"
    using mid [THEN conjunct2, THEN conjunct2, THEN conjunct2, THEN conjunct2, THEN conjunct2,
        THEN conjunct2, THEN conjunct1]
    by (simp add: playing_P1_fields)
  have i2: "currentIndex (snd (next playing_last)) = 0"
    using lst [THEN conjunct1] by simp
  have s2: "el_src (audio (snd (next playing_last))) = site_url (js ''/a/1.mp3'')"
    using lst [THEN conjunct2, THEN conjunct1] by (simp add: playing_last_fields track1_def)
  have si2: "st_currentIndex (last (stateLog (snd (next playing_last)))) = 0"
    using lst [THEN conjunct2, THEN conjunct2, THEN conjunct2, THEN conjunct2, THEN conjunct1]
    by simp
  have i4: "currentIndex (snd (next stale_index)) = 0"
    using stl [THEN conjunct1] by simp
  have s4: "el_src (audio (snd (next stale_index))) = site_url (js ''/b/3.mp3'')"
    using stl [THEN conjunct2, THEN conjunct1] by (simp add: stale_index_fields track3_def)
  have st4: "currentIndex stale_index = 1" "length (currentPlaylist stale_index) = 1"
    by (simp_all add: stale_index_fields)
  have n5: "next ?neg = (Inr (), ?neg\<lparr> audioCalls := [SetSrc (js ''/a/1.mp3''), Play, Play] \<rparr>)"
    using neg by (simp add: play_def playing_P1_fields)
  show ?thesis
    by (intro conjI) (fact i1 s1 r1 calls1 p1 sp1 i2 s2 r2 calls2 si2 st4 i4 s4 calls4 r3 calls3 n5)+
qed

text \<open>
  C4, as first stated, fails at the last index of a playing playlist: \<open>next()\<close> wraps to the
  first track and leaves \<open>isPlaying\<close> true, in the state and in the snapshot it broadcasts.
\<close>

theorem next_keeps_isPlaying_counterexample:
  "currentIndex playing_last = int (length (currentPlaylist playing_last)) - 1
   \<and> isPlaying playing_last
   \<and> currentIndex (snd (next playing_last)) = 0
   \<and> isPlaying (snd (next playing_last))
   \<and> st_isPlaying (last (stateLog (snd (next playing_last))))
   \<and> st_currentIndex (last (stateLog (snd (next playing_last)))) = 0"
proof -
  have n: "next playing_last =
      and_then (notifyStateChange (loaded 0 playing_last)) (\<lambda>s'. (Inr (), pause s'))"
    by (rule next_at_last) (simp_all add: playing_last_fields)
  show ?thesis
    by (simp add: n and_then_state playing_last_fields split: sum.splits)
qed

text \<open>
  C5. \<open>findMasterIndex\<close> and \<open>findLocalIndex\<close> decode each \<open>src\<close> with \<open>decodeURIComponent\<close>,
  which raises \<open>URIError\<close> on a malformed escape, and neither function catches it. For the
  local list \<open>[/a/2.mp3]\<close> and the master list \<open>[/a/100%.mp3, /a/2.mp3]\<close>, \<open>findMasterIndex(0)\<close>
  raises, although the second track of the master is the local track: the index to return
  is 1. For the master list \<open>[/a/1.mp3, /a/2.mp3]\<close> the translation is the expected one: local
  0 is master 1, master 1 is local 0, and master 0 has no local index.
\<close>

theorem findMasterIndex_malformed_src_raises:
  "ap_playlist album_widget = [track2]
   \<and> map_option playlist (map_of (players master_percent) (js ''Master''))
       = Some [track_percent, track2]
   \<and> src track_percent = js ''/a/100%.mp3''
   \<and> decodeURIComponent (src track_percent) = Inl URIError
   \<and> findMasterIndex album_widget (Some master_percent) 0 = Inl URIError
   \<and> map_option playlist (map_of (players master_manager) (js ''Master''))
       = Some [track1, track2]
   \<and> findMasterIndex album_widget (Some master_manager) 0 = Inr 1
   \<and> findLocalIndex album_widget (Some master_manager) 1 = Inr 0
   \<and> findLocalIndex album_widget (Some master_manager) 0 = Inr (- 1)"
proof -
  have m: "or_null (masterPlaylist album_widget) = Some (js ''Master'')"
    by (simp add: album_widget_def or_null_def js_def)
  have l: "ap_playlist album_widget = [track2]"
    by (simp add: album_widget_def)
  have d: "js ''/a/1.mp3'' \<noteq> js ''/a/2.mp3''"
    by (simp add: js_def)
  have mp: "map_option playlist (map_of (players master_percent) (js ''Master''))
      = Some [track_percent, track2]"
    by (simp add: master_percent_fields)
  have mm: "map_option playlist (map_of (players master_manager) (js ''Master''))
      = Some [track1, track2]"
    by (simp add: master_manager_fields)
  have sp: "src track_percent = js ''/a/100%.mp3''"
    by (simp add: track_percent_def)
  have dp: "decodeURIComponent (src track_percent) = Inl URIError"
    by (rule example_decodes(3))
  have raises: "findMasterIndex album_widget (Some master_percent) 0 = Inl URIError"
    by (simp add: findMasterIndex_def m l at_index_def players_get_Own [OF master_percent_fields]
        example_decodes findIndexE_def sameDecoded_def)
  have up: "findMasterIndex album_widget (Some master_manager) 0 = Inr 1"
    using d by (simp add: findMasterIndex_def m l at_index_def
        players_get_Own [OF master_manager_fields] example_decodes findIndexE_def sameDecoded_def)
  have down1: "findLocalIndex album_widget (Some master_manager) 1 = Inr 0"
    by (simp add: findLocalIndex_def m l at_index_def players_get_Own [OF master_manager_fields]
        example_decodes findIndexE_def sameDecoded_def)
  have down0: "findLocalIndex album_widget (Some master_manager) 0 = Inr (- 1)"
    using d by (simp add: findLocalIndex_def m l at_index_def
        players_get_Own [OF master_manager_fields] example_decodes findIndexE_def sameDecoded_def)
  show ?thesis
    by (intro conjI) (fact l mp sp dp raises mm up down1 down0)+
qed


text \<open>
  C7. \<open>clearPlayers()\<close> empties the registry, makes no call on the audio element and leaves
  \<open>isPlaying\<close>, the loaded source and the playback position as they were; the pending record
  it stores holds the active playlist name, the element's source and current time and
  \<open>isPlaying\<close>, all as they were before the call.
\<close>

theorem clearPlayers_keeps_resource:
  "players (clearPlayers s) = []
   \<and> isPlaying (clearPlayers s) = isPlaying s
   \<and> audio (clearPlayers s) = audio s
   \<and> audioCalls (clearPlayers s) = audioCalls s
   \<and> stateLog (clearPlayers s) = stateLog s
   \<and> pendingReconnect (clearPlayers s) =
       Some \<lparr> playerName = activePlayerName s, pr_src = el_src (audio s),
              pr_time = currentTime (audio s), playing = isPlaying s \<rparr>"
  by (simp add: clearPlayers_def Let_def)

theorem clearPlayers_keeps_resource_witness:
  "players playing_P1 \<noteq> []
   \<and> players (clearPlayers playing_P1) = []
   \<and> isPlaying (clearPlayers playing_P1)
   \<and> el_src (audio (clearPlayers playing_P1)) = site_url (js ''/a/1.mp3'')
   \<and> audioCalls (clearPlayers playing_P1) = [SetSrc (js ''/a/1.mp3''), Play]
   \<and> pendingReconnect (clearPlayers playing_P1) =
       Some \<lparr> playerName = Some (js ''P1''), pr_src = site_url (js ''/a/1.mp3''),
              pr_time = 0, playing = True \<rparr>"
  using clearPlayers_keeps_resource [of playing_P1]
  by (simp add: playing_P1_fields playing_P1_registry)

text \<open>
  C8. The disposer returned by \<open>addStateListener\<close> (and by \<open>addTimeListener\<close>) removes the
  first registration of its callback and nothing else. For a callback that was not registered
  before, it undoes the registration it was created for. It is a no-op on an empty list, and
  calling it twice is the same as calling it once when the callback is registered at most
  once. (With the same callback registered several times, each call removes one more
  registration.)
\<close>

theorem disposer_removes_first_registration:
  "stateChangeListeners (disposeStateListener cb s) = remove1 cb (stateChangeListeners s)
   \<and> timeUpdateListeners (disposeTimeListener cb s) = remove1 cb (timeUpdateListeners s)
   \<and> (cb \<notin> set (stateChangeListeners s) \<longrightarrow>
        disposeStateListener cb (addStateListener cb s) = s)
   \<and> (cb \<notin> set (timeUpdateListeners s) \<longrightarrow>
        disposeTimeListener cb (addTimeListener cb s) = s)
   \<and> (count_list (stateChangeListeners s) cb \<le> 1 \<longrightarrow>
        disposeStateListener cb (disposeStateListener cb s) = disposeStateListener cb s)
   \<and> (count_list (timeUpdateListeners s) cb \<le> 1 \<longrightarrow>
        disposeTimeListener cb (disposeTimeListener cb s) = disposeTimeListener cb s)
   \<and> (stateChangeListeners s = [] \<longrightarrow> disposeStateListener cb s = s)
   \<and> (timeUpdateListeners s = [] \<longrightarrow> disposeTimeListener cb s = s)"
  by (simp add: disposeStateListener_def disposeTimeListener_def addStateListener_def
      addTimeListener_def dispose_remove1 remove1_twice_single remove1_append remove1_idem)

theorem disposer_removes_first_registration_witness:
  "stateChangeListeners two_listeners = [0, 1]
   \<and> stateChangeListeners (disposeStateListener 0 two_listeners) = [1]
   \<and> disposeStateListener 0 (disposeStateListener 0 two_listeners)
       = disposeStateListener 0 two_listeners
   \<and> disposeStateListener 3 (addStateListener 3 two_listeners) = two_listeners
   \<and> disposeTimeListener 3 (addTimeListener 3 two_listeners) = two_listeners
   \<and> disposeTimeListener 3 (disposeTimeListener 3 (addTimeListener 3 two_listeners))
       = disposeTimeListener 3 (addTimeListener 3 two_listeners)
   \<and> disposeStateListener 0 new_AudioManager = new_AudioManager
   \<and> disposeTimeListener 0 new_AudioManager = new_AudioManager"
proof -
  have l: "stateChangeListeners two_listeners = [0, 1]" "timeUpdateListeners two_listeners = []"
    by (simp_all add: two_listeners_def addStateListener_def new_AudioManager_def)
  have lt: "timeUpdateListeners (addTimeListener 3 two_listeners) = [3]"
    by (simp add: addTimeListener_def l)
  have e: "stateChangeListeners new_AudioManager = []" "timeUpdateListeners new_AudioManager = []"
    by (simp_all add: new_AudioManager_def)
  show ?thesis
    using disposer_removes_first_registration [of 0 two_listeners]
      disposer_removes_first_registration [of 3 two_listeners]
      disposer_removes_first_registration [of 3 "addTimeListener 3 two_listeners"]
      disposer_removes_first_registration [of 0 new_AudioManager]
    by (simp add: l lt e)
qed

text \<open>
  C8, as first stated, fails when the same callback is registered twice: the second call of
  the disposer removes the second registration.
\<close>

theorem disposer_not_idempotent_counterexample:
  "stateChangeListeners (disposeStateListener 7 (disposeStateListener 7 twice_registered))
     \<noteq> stateChangeListeners (disposeStateListener 7 twice_registered)"
  by (simp add: twice_registered_def disposeStateListener_def addStateListener_def
      new_AudioManager_def dispose_remove1)

text \<open>
  C9. With \<open>constructor\<close> the captured name of the pending record and no playlist
  registered, \<open>tryReconnect('constructor')\<close> raises \<open>TypeError\<close>: \<open>this.players[name]\<close> finds
  the member that the registry inherits from \<open>Object.prototype\<close>, which passes the test
  \<open>if (!player)\<close> written to return false for a name that is not registered. With the
  captured name \<open>P1\<close> and no playlist registered, the test works: the call returns false and
  changes nothing.
\<close>

theorem tryReconnect_inherited_name_raises:
  "map_of (players cleared_constructor) (js ''constructor'') = None
   \<and> map_option playerName (pendingReconnect cleared_constructor) = Some (Some (js ''constructor''))
   \<and> tryReconnect (js ''constructor'') cleared_constructor = (Inl TypeError, cleared_constructor)
   \<and> map_of (players cleared_P1) (js ''P1'') = None
   \<and> map_option playerName (pendingReconnect cleared_P1) = Some (Some (js ''P1''))
   \<and> tryReconnect (js ''P1'') cleared_P1 = (Inr False, cleared_P1)"
proof -
  have ordinary: "js ''P1'' \<notin> set Object_prototype_names"
    by (simp add: Object_prototype_names_def js_def)
  have "tryReconnect (js ''constructor'') cleared_constructor = (Inl TypeError, cleared_constructor)"
    by (rule tryReconnect_inherited [OF cleared_constructor_fields(2)])
      (simp_all add: cleared_constructor_fields constructor_inherited)
  moreover have "tryReconnect (js ''P1'') cleared_P1 = (Inr False, cleared_P1)"
    by (rule tryReconnect_unregistered [OF cleared_P1_fields(2)])
      (simp_all add: cleared_P1_fields ordinary)
  ultimately show ?thesis
    by (simp add: cleared_constructor_fields cleared_P1_fields)
qed

text \<open>
  C10. After \<open>unregister(name)\<close> of the active playlist the session has no track list and no
  active playlist, so \<open>getCurrentTrack()\<close> is \<open>null\<close>; the audio element is paused and keeps
  its loaded source.
\<close>

theorem unregister_active_detaches_tracks:
  assumes "activePlayerName s = Some nm"
  shows "currentPlaylist (unregister nm s) = []
         \<and> activePlayerName (unregister nm s) = None
         \<and> getCurrentTrack (unregister nm s) = None
         \<and> map_of (players (unregister nm s)) nm = None
         \<and> audioCalls (unregister nm s) = audioCalls s @ [Pause]
         \<and> el_src (audio (unregister nm s)) = el_src (audio s)"
  using assms
  by (simp add: unregister_def pause_def getCurrentTrack_def Let_def delete_conv')

theorem unregister_active_detaches_tracks_witness:
  "activePlayerName playing_P1 = Some (js ''P1'')
   \<and> getCurrentTrack playing_P1 = Some track1
   \<and> getCurrentTrack (unregister (js ''P1'') playing_P1) = None
   \<and> el_src (audio (unregister (js ''P1'') playing_P1)) = site_url (src track1)"
  using unregister_active_detaches_tracks [of playing_P1 "js ''P1''"]
  by (simp add: playing_P1_fields getCurrentTrack_def at_index_def track1_def)

end
